theory Spec2Isabelle
  imports Main
begin

section \<open>The launcher script \<open>server.py\<close>: logging bootstrap, argument parsing, shutdown\<close>

text \<open>
  The script configures the process-wide root logger at import time (a console handler and
  a rotating file handler), registers one handler function for SIGTERM and SIGINT, and, when
  run as a program, parses five command-line options, reconciles the file handler with
  \<open>--log-file\<close>, logs its start-up lines, sets the level and calls \<open>uvicorn.run\<close>.

  The model passes the state of the \<open>logging\<close> module explicitly: handler objects live in a
  store indexed by object identity, the root logger holds references into it, and every
  logger call, usage error and server start is appended to a trace. What the script cannot
  decide by itself (the command line, the environment, the file system, what the server
  call does) is read from an environment record.
\<close>

subsection \<open>Severities and strings\<close>

text \<open>The numeric levels of Python's \<open>logging\<close> module.\<close>

definition NOTSET :: nat where "NOTSET = 0"
definition DEBUG :: nat where "DEBUG = 10"
definition INFO :: nat where "INFO = 20"
definition WARNING :: nat where "WARNING = 30"
definition ERROR :: nat where "ERROR = 40"
definition CRITICAL :: nat where "CRITICAL = 50"

text \<open>\<open>str.upper\<close> and \<open>str.lower\<close> on ASCII text: only the 26 letters change.\<close>

definition ascii_lowercase :: string where
  "ascii_lowercase = ''abcdefghijklmnopqrstuvwxyz''"

definition ascii_uppercase :: string where
  "ascii_uppercase = ''ABCDEFGHIJKLMNOPQRSTUVWXYZ''"

definition upper_char :: "char \<Rightarrow> char" where
  "upper_char c = (case map_of (zip ascii_lowercase ascii_uppercase) c of None \<Rightarrow> c | Some u \<Rightarrow> u)"

definition lower_char :: "char \<Rightarrow> char" where
  "lower_char c = (case map_of (zip ascii_uppercase ascii_lowercase) c of None \<Rightarrow> c | Some l \<Rightarrow> l)"

definition upper :: "string \<Rightarrow> string" where
  "upper s = map upper_char s"

definition lower :: "string \<Rightarrow> string" where
  "lower s = map lower_char s"

text \<open>\<open>str(n)\<close> for an integer: its decimal numeral.\<close>

definition digits :: string where
  "digits = ''0123456789''"

fun str_nat :: "nat \<Rightarrow> string" where
  "str_nat n = (if n < 10 then [digits ! n] else str_nat (n div 10) @ [digits ! (n mod 10)])"

definition str_int :: "int \<Rightarrow> string" where
  "str_int i = (if i < 0 then CHR ''-'' # str_nat (nat (- i)) else str_nat (nat i))"

text \<open>
  \<open>int(s)\<close>, which is what \<open>type=int\<close> applies to the value of \<open>--port\<close>. A character
  is a code point below 256. In a string that is not ASCII the two spaces above 127,
  U+0085 and U+00A0, are first turned into blanks. Then the white space of C's
  \<open>isspace\<close> (0x09 to 0x0D and the blank) is dropped at both ends, one sign is allowed, and
  the rest must be decimal digits, where single underscores may separate digits. A value
  of more than \<open>int_max_str_digits\<close> digits is refused (the default of
  \<open>sys.set_int_max_str_digits\<close>). \<open>None\<close> is Python's ValueError.
\<close>

definition whitespace :: string where
  "whitespace = [CHR 0x09, CHR 0x0A, CHR 0x0B, CHR 0x0C, CHR 0x0D, CHR 0x20]"

definition is_space :: "char \<Rightarrow> bool" where
  "is_space c = (c \<in> set whitespace)"

definition space_to_ascii :: "char \<Rightarrow> char" where
  "space_to_ascii c = (if c = CHR 0x85 \<or> c = CHR 0xA0 then CHR 0x20 else c)"

definition is_digit :: "char \<Rightarrow> bool" where
  "is_digit c = (c \<in> set digits)"

definition digit_val :: "char \<Rightarrow> nat" where
  "digit_val c =
     (case map_of (zip digits [0, 1, 2, 3, 4, 5, 6, 7, 8, 9]) c of None \<Rightarrow> 0 | Some d \<Rightarrow> d)"

fun py_digits :: "nat \<Rightarrow> bool \<Rightarrow> string \<Rightarrow> nat option" where
  "py_digits acc prev_digit [] = (if prev_digit then Some acc else None)"
| "py_digits acc prev_digit (c # cs) =
     (if is_digit c then py_digits (10 * acc + digit_val c) True cs
      else if c = CHR ''_'' \<and> prev_digit then py_digits acc False cs
      else None)"

definition strip :: "string \<Rightarrow> string" where
  "strip s = rev (dropWhile is_space (rev (dropWhile is_space s)))"

definition int_max_str_digits :: nat where
  "int_max_str_digits = 4300"

definition py_int :: "string \<Rightarrow> int option" where
  "py_int s =
     (case strip (map space_to_ascii s) of
        [] \<Rightarrow> None
      | c # cs \<Rightarrow>
          let body = (if c = CHR ''-'' \<or> c = CHR ''+'' then cs else c # cs)
          in if int_max_str_digits < length (filter is_digit body) then None
             else if c = CHR ''-'' then map_option (\<lambda>n. - int n) (py_digits 0 False body)
             else map_option int (py_digits 0 False body))"

subsection \<open>Handlers, the root logger and the trace\<close>

type_synonym hid = nat

datatype handler_class =
    StreamHandler
  | RotatingFileHandler (baseFilename: string) (maxBytes: nat) (backupCount: nat) (encoding: string)

record handler =
  cls :: handler_class
  hlevel :: nat
  formatter :: "(string \<times> string) option"
  stream_open :: bool

datatype signum = SIGINT | SIGTERM

datatype sig_handler = Handle_shutdown

text \<open>
  What stands on the command line, item by item. The first five are the declared options,
  each with the value given to it. \<open>Help\<close> is \<open>-h\<close> or \<open>--help\<close>. \<open>Unrecognized s\<close> is an
  option the parser does not declare, or a positional argument. \<open>Malformed s\<close> is a declared
  option written so that argparse refuses it where it stands: \<open>--host\<close>, \<open>--port\<close>,
  \<open>--log-level\<close> or \<open>--log-file\<close> without a value, or \<open>--reload\<close> with one. An abbreviation
  that could mean two options is not among the items.
\<close>

datatype opt = Reload | Host string | Port string | Log_level string | Log_file string
  | Help | Unrecognized string | Malformed string

datatype event =
    LogCall string nat string "hid list"
  | Usage "opt list"
  | Help_message
  | ServeCall string string int bool string

text \<open>
  \<open>LogCall name levelno msg hs\<close>: a call of the logger \<open>name\<close> at \<open>levelno\<close> with \<open>msg\<close>;
  \<open>hs\<close> are the handlers that emitted the record. \<open>Usage os\<close>: the usage error argparse
  prints, which names the items \<open>os\<close>. \<open>Help_message\<close>: the help text of \<open>--help\<close>. \<open>ServeCall app host port reload log_level\<close>: the call of \<open>uvicorn.run\<close>.
\<close>

record world =
  root_level :: nat
  root_handlers :: "hid list"
  objects :: "hid \<rightharpoonup> handler"
  next_id :: hid
  logger_levels :: "string \<rightharpoonup> nat"
  signal_handlers :: "signum \<rightharpoonup> sig_handler"
  trace :: "event list"

datatype exn = OSError string | KeyboardInterrupt

datatype outcome = Finished | SystemExit int | Uncaught exn | Killed signum

text \<open>
  The exit status the operating system sees. An uncaught \<open>KeyboardInterrupt\<close> makes the
  interpreter end the process through the signal, like a kill: there is no status then.
\<close>

fun exit_code :: "outcome \<Rightarrow> int option" where
  "exit_code Finished = Some 0"
| "exit_code (SystemExit n) = Some n"
| "exit_code (Uncaught (OSError p)) = Some 1"
| "exit_code (Uncaught KeyboardInterrupt) = None"
| "exit_code (Killed s) = None"

subsection \<open>The operations of \<open>logging\<close> the script calls\<close>

definition new_object :: "handler \<Rightarrow> world \<Rightarrow> hid \<times> world" where
  "new_object ob w =
     (next_id w, w\<lparr>objects := (objects w)(next_id w \<mapsto> ob), next_id := Suc (next_id w)\<rparr>)"

definition upd_handler :: "hid \<Rightarrow> (handler \<Rightarrow> handler) \<Rightarrow> world \<Rightarrow> world" where
  "upd_handler h f w =
     (case objects w h of None \<Rightarrow> w | Some ob \<Rightarrow> w\<lparr>objects := (objects w)(h \<mapsto> f ob)\<rparr>)"

definition setLevel :: "hid \<Rightarrow> nat \<Rightarrow> world \<Rightarrow> world" where
  "setLevel h lv w = upd_handler h (\<lambda>ob. ob\<lparr>hlevel := lv\<rparr>) w"

definition setFormatter :: "hid \<Rightarrow> string \<times> string \<Rightarrow> world \<Rightarrow> world" where
  "setFormatter h fmt w = upd_handler h (\<lambda>ob. ob\<lparr>formatter := Some fmt\<rparr>) w"

definition close :: "hid \<Rightarrow> world \<Rightarrow> world" where
  "close h w = upd_handler h (\<lambda>ob. ob\<lparr>stream_open := False\<rparr>) w"

definition addHandler :: "hid \<Rightarrow> world \<Rightarrow> world" where
  "addHandler h w =
     (if h \<in> set (root_handlers w) then w else w\<lparr>root_handlers := root_handlers w @ [h]\<rparr>)"

definition removeHandler :: "hid \<Rightarrow> world \<Rightarrow> world" where
  "removeHandler h w =
     (if h \<in> set (root_handlers w) then w\<lparr>root_handlers := remove1 h (root_handlers w)\<rparr> else w)"

definition isinstance_RotatingFileHandler :: "world \<Rightarrow> hid \<Rightarrow> bool" where
  "isinstance_RotatingFileHandler w h =
     (case objects w h of
        None \<Rightarrow> False
      | Some ob \<Rightarrow> (case cls ob of StreamHandler \<Rightarrow> False | RotatingFileHandler p mb bc enc \<Rightarrow> True))"

text \<open>
  A logger other than the root has its own level or none; the script's loggers have no
  dots in their names, so their parent is the root. A record that passes the logger's
  effective level goes to every handler of the root whose own level it reaches.
\<close>

definition getEffectiveLevel :: "world \<Rightarrow> string \<Rightarrow> nat" where
  "getEffectiveLevel w name =
     (case logger_levels w name of
        None \<Rightarrow> root_level w
      | Some l \<Rightarrow> if l \<noteq> NOTSET then l else root_level w)"

definition handles :: "world \<Rightarrow> nat \<Rightarrow> hid \<Rightarrow> bool" where
  "handles w lv h = (case objects w h of None \<Rightarrow> False | Some ob \<Rightarrow> hlevel ob \<le> lv)"

definition emitted_to :: "world \<Rightarrow> string \<Rightarrow> nat \<Rightarrow> hid list" where
  "emitted_to w name lv =
     (if getEffectiveLevel w name \<le> lv then filter (handles w lv) (root_handlers w) else [])"

definition log_call :: "string \<Rightarrow> nat \<Rightarrow> string \<Rightarrow> world \<Rightarrow> world" where
  "log_call name lv msg w = w\<lparr>trace := trace w @ [LogCall name lv msg (emitted_to w name lv)]\<rparr>"

definition logger_name :: string where
  "logger_name = ''__main__''"

definition logger_info :: "string \<Rightarrow> world \<Rightarrow> world" where
  "logger_info msg w = log_call logger_name INFO msg w"

definition logger_error :: "string \<Rightarrow> world \<Rightarrow> world" where
  "logger_error msg w = log_call logger_name ERROR msg w"

definition getLogger_setLevel :: "string \<Rightarrow> nat \<Rightarrow> world \<Rightarrow> world" where
  "getLogger_setLevel name lv w = w\<lparr>logger_levels := (logger_levels w)(name \<mapsto> lv)\<rparr>"

subsection \<open>The environment of a run\<close>

text \<open>
  The command line is the list of the options given, in order, each with its raw value.
  \<open>DEBUG_var\<close> is the environment variable \<open>DEBUG\<close>. The file system answers three
  questions: whether \<open>mkdir(exist_ok=True)\<close> of a directory succeeds, whether
  \<open>Path(p).parent.mkdir(parents=True, exist_ok=True)\<close> succeeds, and whether a log file
  can be opened for appending. \<open>serve_result\<close> is what the call of \<open>uvicorn.run\<close> does:
  it returns; it raises an instance of \<open>Exception\<close> with the given text; it raises one of
  the exceptions outside \<open>Exception\<close>, a \<open>SystemExit\<close> with the given code or a
  \<open>KeyboardInterrupt\<close>; or a termination signal arrives while it blocks.
\<close>

datatype serve_result =
    Returns
  | Raises string
  | Raises_SystemExit int
  | Raises_KeyboardInterrupt
  | Signalled signum

record env =
  argv :: "opt list"
  DEBUG_var :: "string option"
  os_name :: string
  mkdir_ok :: "string \<Rightarrow> bool"
  parent_mkdir_ok :: "string \<Rightarrow> bool"
  open_ok :: "string \<Rightarrow> bool"
  abspath :: "string \<Rightarrow> string"
  serve_result :: serve_result

subsection \<open>Module level: the logging pipeline and the signal handlers\<close>

definition log_dir :: string where
  "log_dir = ''logs''"

definition log_format :: string where
  "log_format = ''%(asctime)s - %(name)s - %(levelname)s - %(message)s''"

definition date_format :: string where
  "date_format = ''%Y-%m-%d %H:%M:%S''"

definition log_file :: string where
  "log_file = log_dir @ ''/academic-agent.log''"

definition new_StreamHandler :: "world \<Rightarrow> hid \<times> world" where
  "new_StreamHandler w =
     new_object \<lparr>cls = StreamHandler, hlevel = NOTSET, formatter = None, stream_open = True\<rparr> w"

text \<open>The constructor opens the file at once; when that fails nothing is created.\<close>

definition new_RotatingFileHandler ::
  "env \<Rightarrow> string \<Rightarrow> nat \<Rightarrow> nat \<Rightarrow> string \<Rightarrow> world \<Rightarrow> exn + hid \<times> world" where
  "new_RotatingFileHandler env filename mb bc enc w =
     (if open_ok env filename
      then Inr (new_object \<lparr>cls = RotatingFileHandler (abspath env filename) mb bc enc,
                            hlevel = NOTSET, formatter = None, stream_open = True\<rparr> w)
      else Inl (OSError filename))"

definition signal_signal :: "signum \<Rightarrow> sig_handler \<Rightarrow> world \<Rightarrow> world" where
  "signal_signal s f w = w\<lparr>signal_handlers := (signal_handlers w)(s \<mapsto> f)\<rparr>"

text \<open>Lines 19 to 74 of the script, run when the module is loaded.\<close>

definition module_init :: "env \<Rightarrow> world \<Rightarrow> world \<times> exn option" where
  "module_init env w =
     (if \<not> mkdir_ok env log_dir then (w, Some (OSError log_dir))
      else
        let w = w\<lparr>root_level := INFO\<rparr>;
            w = w\<lparr>root_handlers := []\<rparr>;
            (console_handler, w) = new_StreamHandler w;
            w = setLevel console_handler INFO w;
            w = setFormatter console_handler (log_format, date_format) w;
            w = addHandler console_handler w
        in case new_RotatingFileHandler env log_file (10 * 1024 * 1024) 5 ''utf-8'' w of
             Inl e \<Rightarrow> (w, Some e)
           | Inr (file_handler, w) \<Rightarrow>
               let w = setLevel file_handler INFO w;
                   w = setFormatter file_handler (log_format, date_format) w;
                   w = addHandler file_handler w;
                   w = (if os_name env = ''nt''
                        then logger_info ''Setting Windows event loop policy for asyncio'' w
                        else w);
                   w = signal_signal SIGTERM Handle_shutdown w;
                   w = signal_signal SIGINT Handle_shutdown w
               in (w, None))"

definition handle_shutdown :: "signum \<Rightarrow> world \<Rightarrow> world \<times> outcome" where
  "handle_shutdown sig w =
     (logger_info ''Received shutdown signal. Starting graceful shutdown...'' w, SystemExit 0)"

subsection \<open>The command line\<close>

record args =
  args_reload :: bool
  args_host :: string
  args_port :: int
  args_log_level :: string
  args_log_file :: "string option"

definition defaults :: args where
  "defaults = \<lparr>args_reload = False, args_host = ''localhost'', args_port = 8000,
                args_log_level = ''info'', args_log_file = None\<rparr>"

definition choices :: "string list" where
  "choices = [''debug'', ''info'', ''warning'', ''error'', ''critical'']"

text \<open>
  Items are taken in order and a later option overrides an earlier one. The first value
  that its \<open>type\<close> or \<open>choices\<close> refuses, and the first malformed option, end parsing with
  a usage error; \<open>--help\<close> ends it with the help text. Unrecognized items are set aside and
  refused together once everything else has been taken.
\<close>

datatype parse_exit = Usage_error "opt list" | Help_exit

fun parse_opts :: "opt list \<Rightarrow> opt list \<Rightarrow> args \<Rightarrow> parse_exit + args" where
  "parse_opts [] extras a = (if extras = [] then Inr a else Inl (Usage_error extras))"
| "parse_opts (Reload # rest) extras a = parse_opts rest extras (a\<lparr>args_reload := True\<rparr>)"
| "parse_opts (Host s # rest) extras a = parse_opts rest extras (a\<lparr>args_host := s\<rparr>)"
| "parse_opts (Port s # rest) extras a =
     (case py_int s of
        None \<Rightarrow> Inl (Usage_error [Port s])
      | Some n \<Rightarrow> parse_opts rest extras (a\<lparr>args_port := n\<rparr>))"
| "parse_opts (Log_level s # rest) extras a =
     (if s \<in> set choices then parse_opts rest extras (a\<lparr>args_log_level := s\<rparr>)
      else Inl (Usage_error [Log_level s]))"
| "parse_opts (Log_file s # rest) extras a = parse_opts rest extras (a\<lparr>args_log_file := Some s\<rparr>)"
| "parse_opts (Help # rest) extras a = Inl Help_exit"
| "parse_opts (Unrecognized s # rest) extras a = parse_opts rest (extras @ [Unrecognized s]) a"
| "parse_opts (Malformed s # rest) extras a = Inl (Usage_error [Malformed s])"

definition parse_args :: "opt list \<Rightarrow> parse_exit + args" where
  "parse_args av = parse_opts av [] defaults"

subsection \<open>The main block\<close>

text \<open>Lines 117 to 121: the environment variable \<open>DEBUG\<close> overrides \<open>--log-level\<close>.\<close>

definition getenv_DEBUG :: "env \<Rightarrow> string" where
  "getenv_DEBUG env = (case DEBUG_var env of None \<Rightarrow> [] | Some v \<Rightarrow> v)"

definition resolve_log_level :: "env \<Rightarrow> args \<Rightarrow> string" where
  "resolve_log_level env a =
     (if lower (getenv_DEBUG env) \<in> set [''true'', ''1'', ''yes''] then ''debug''
      else args_log_level a)"

text \<open>
  The loop of lines 127 to 130 and 136 to 139, over a copy of the handler list: every
  rotating file handler is removed from the root logger and closed.
\<close>

fun remove_file_handlers :: "hid list \<Rightarrow> world \<Rightarrow> world" where
  "remove_file_handlers [] w = w"
| "remove_file_handlers (h # rest) w =
     remove_file_handlers rest
       (if isinstance_RotatingFileHandler w h then close h (removeHandler h w) else w)"

text \<open>Lines 124 to 149. An exception raised here is outside the \<open>try\<close> block.\<close>

definition configure_log_file :: "env \<Rightarrow> args \<Rightarrow> world \<Rightarrow> world \<times> exn option" where
  "configure_log_file env a w =
     (case args_log_file a of
        None \<Rightarrow> (w, None)
      | Some f \<Rightarrow>
          if f = [] then (remove_file_handlers (root_handlers w) w, None)
          else if \<not> parent_mkdir_ok env f then (w, Some (OSError f))
          else
            (let w = remove_file_handlers (root_handlers w) w
             in (case new_RotatingFileHandler env f (10 * 1024 * 1024) 5 ''utf-8'' w of
                   Inl e \<Rightarrow> (w, Some e)
                 | Inr (custom_file_handler, w) \<Rightarrow>
                     let w = setLevel custom_file_handler INFO w;
                         w = setFormatter custom_file_handler (log_format, date_format) w;
                         w = addHandler custom_file_handler w
                     in (w, None))))"

text \<open>
  \<open>getattr(logging, name, logging.INFO)\<close> for the names the script can pass: the upper-case
  forms of the five choices; any other name gets the default.
\<close>

definition logging_getattr :: "string \<Rightarrow> nat" where
  "logging_getattr name =
     (if name = ''DEBUG'' then DEBUG
      else if name = ''INFO'' then INFO
      else if name = ''WARNING'' then WARNING
      else if name = ''ERROR'' then ERROR
      else if name = ''CRITICAL'' then CRITICAL
      else INFO)"

fun set_handler_levels :: "hid list \<Rightarrow> nat \<Rightarrow> world \<Rightarrow> world" where
  "set_handler_levels [] lv w = w"
| "set_handler_levels (h # rest) lv w = set_handler_levels rest lv (setLevel h lv w)"

definition baseFilename_of :: "world \<Rightarrow> hid \<Rightarrow> string" where
  "baseFilename_of w h =
     (case objects w h of
        None \<Rightarrow> []
      | Some ob \<Rightarrow> (case cls ob of StreamHandler \<Rightarrow> [] | RotatingFileHandler p mb bc enc \<Rightarrow> p))"

text \<open>The list comprehension of line 155: the rotating file handlers of the root logger.\<close>

definition file_handlers :: "world \<Rightarrow> hid list" where
  "file_handlers w = filter (isinstance_RotatingFileHandler w) (root_handlers w)"

text \<open>The text of line 171.\<close>

definition debug_enabled_msg :: string where
  "debug_enabled_msg = ''DEBUG logging enabled for src, langchain, and langgraph packages''
                @ '' - detailed diagnostic information will be logged''"

text \<open>Lines 152 to 171: the start-up lines, then the levels, then the debug namespaces.\<close>

definition startup :: "args \<Rightarrow> string \<Rightarrow> world \<Rightarrow> world" where
  "startup a log_level w =
     (let w = logger_info (''Starting DeerFlow API server on '' @ args_host a @ '':''
                             @ str_int (args_port a)) w;
          w = logger_info (''Log level: '' @ upper log_level) w;
          w = (case file_handlers w of
                 [] \<Rightarrow> w
               | h # rest \<Rightarrow> logger_info (''Log file: '' @ baseFilename_of w h) w);
          numeric_level = logging_getattr (upper log_level);
          w = w\<lparr>root_level := numeric_level\<rparr>;
          w = set_handler_levels (root_handlers w) numeric_level w
      in if lower log_level = ''debug''
         then
           let w = getLogger_setLevel ''src'' DEBUG w;
               w = getLogger_setLevel ''langchain'' DEBUG w;
               w = getLogger_setLevel ''langgraph'' DEBUG w
           in logger_info debug_enabled_msg w
         else w)"

text \<open>
  Lines 151 to 182: the \<open>try\<close> statement. \<open>except Exception\<close> catches an \<open>Exception\<close>
  that the server call raises. A \<open>SystemExit\<close> or a \<open>KeyboardInterrupt\<close> from the server
  call, and the \<open>SystemExit\<close> that the signal handler raises, are no \<open>Exception\<close> and pass.
\<close>

definition run_server :: "env \<Rightarrow> args \<Rightarrow> bool \<Rightarrow> string \<Rightarrow> world \<Rightarrow> world \<times> outcome" where
  "run_server env a reload log_level w =
     (let w = startup a log_level w;
          w = w\<lparr>trace := trace w
                 @ [ServeCall ''src.server:app'' (args_host a) (args_port a) reload log_level]\<rparr>
      in case serve_result env of
           Returns \<Rightarrow> (w, Finished)
         | Raises e \<Rightarrow> (logger_error (''Failed to start server: '' @ e) w, SystemExit 1)
         | Raises_SystemExit c \<Rightarrow> (w, SystemExit c)
         | Raises_KeyboardInterrupt \<Rightarrow> (w, Uncaught KeyboardInterrupt)
         | Signalled s \<Rightarrow>
             (case signal_handlers w s of
                None \<Rightarrow> (w, Killed s)
              | Some Handle_shutdown \<Rightarrow> handle_shutdown s w))"

text \<open>The whole run: the module level, then the main block.\<close>

definition main :: "env \<Rightarrow> world \<Rightarrow> world \<times> outcome" where
  "main env w =
     (case module_init env w of
        (w, Some e) \<Rightarrow> (w, Uncaught e)
      | (w, None) \<Rightarrow>
          (case parse_args (argv env) of
             Inl Help_exit \<Rightarrow> (w\<lparr>trace := trace w @ [Help_message]\<rparr>, SystemExit 0)
           | Inl (Usage_error bad) \<Rightarrow> (w\<lparr>trace := trace w @ [Usage bad]\<rparr>, SystemExit 2)
           | Inr a \<Rightarrow>
               let reload = (if args_reload a then True else False);
                   log_level = resolve_log_level env a
               in (case configure_log_file env a w of
                     (w, Some e) \<Rightarrow> (w, Uncaught e)
                   | (w, None) \<Rightarrow> run_server env a reload log_level w)))"

text \<open>The logging state of a fresh interpreter: the root logger at WARNING, no handlers.\<close>

definition fresh_process :: world where
  "fresh_process = \<lparr>root_level = WARNING, root_handlers = [], objects = Map.empty, next_id = 0,
                      logger_levels = Map.empty, signal_handlers = Map.empty, trace = []\<rparr>"

text \<open>
  An environment for examples: no options, no \<open>DEBUG\<close> variable, a file system on which
  every directory can be made and every file opened, and a server call that returns.
\<close>

definition example_env :: env where
  "example_env = \<lparr>argv = [], DEBUG_var = None, os_name = ''posix'', mkdir_ok = (\<lambda>p. True),
     parent_mkdir_ok = (\<lambda>p. True), open_ok = (\<lambda>p. True), abspath = (\<lambda>p. ''/srv/app/'' @ p),
     serve_result = Returns\<rparr>"

section \<open>Facts about the operations\<close>

subsection \<open>What each operation changes\<close>

lemmas level_defs = NOTSET_def DEBUG_def INFO_def WARNING_def ERROR_def CRITICAL_def


lemma upd_handler_fields [simp]:
  "root_level (upd_handler h f w) = root_level w"
  "root_handlers (upd_handler h f w) = root_handlers w"
  "next_id (upd_handler h f w) = next_id w"
  "logger_levels (upd_handler h f w) = logger_levels w"
  "signal_handlers (upd_handler h f w) = signal_handlers w"
  "trace (upd_handler h f w) = trace w"
  by (simp_all add: upd_handler_def split: option.splits)

lemma objects_upd_handler [simp]:
  "objects (upd_handler h f w) h' = (if h' = h then map_option f (objects w h) else objects w h')"
  by (simp add: upd_handler_def split: option.splits)

lemma close_fields [simp]:
  "root_level (close h w) = root_level w"
  "root_handlers (close h w) = root_handlers w"
  "next_id (close h w) = next_id w"
  "logger_levels (close h w) = logger_levels w"
  "signal_handlers (close h w) = signal_handlers w"
  "trace (close h w) = trace w"
  "objects (close h w) h' =
     (if h' = h then map_option (\<lambda>ob. ob\<lparr>stream_open := False\<rparr>) (objects w h) else objects w h')"
  by (simp_all add: close_def)

lemma setLevel_fields [simp]:
  "root_level (setLevel h lv w) = root_level w"
  "root_handlers (setLevel h lv w) = root_handlers w"
  "next_id (setLevel h lv w) = next_id w"
  "logger_levels (setLevel h lv w) = logger_levels w"
  "signal_handlers (setLevel h lv w) = signal_handlers w"
  "trace (setLevel h lv w) = trace w"
  "objects (setLevel h lv w) h' =
     (if h' = h then map_option (\<lambda>ob. ob\<lparr>hlevel := lv\<rparr>) (objects w h) else objects w h')"
  by (simp_all add: setLevel_def)

lemma setFormatter_fields [simp]:
  "root_level (setFormatter h fm w) = root_level w"
  "root_handlers (setFormatter h fm w) = root_handlers w"
  "next_id (setFormatter h fm w) = next_id w"
  "logger_levels (setFormatter h fm w) = logger_levels w"
  "signal_handlers (setFormatter h fm w) = signal_handlers w"
  "trace (setFormatter h fm w) = trace w"
  "objects (setFormatter h fm w) h' =
     (if h' = h then map_option (\<lambda>ob. ob\<lparr>formatter := Some fm\<rparr>) (objects w h) else objects w h')"
  by (simp_all add: setFormatter_def)

lemma removeHandler_fields [simp]:
  "root_level (removeHandler h w) = root_level w"
  "root_handlers (removeHandler h w) = remove1 h (root_handlers w)"
  "objects (removeHandler h w) = objects w"
  "next_id (removeHandler h w) = next_id w"
  "logger_levels (removeHandler h w) = logger_levels w"
  "signal_handlers (removeHandler h w) = signal_handlers w"
  "trace (removeHandler h w) = trace w"
  by (simp_all add: removeHandler_def remove1_idem)

lemma addHandler_fields [simp]:
  "root_level (addHandler h w) = root_level w"
  "root_handlers (addHandler h w) = (if h \<in> set (root_handlers w) then root_handlers w else root_handlers w @ [h])"
  "objects (addHandler h w) = objects w"
  "next_id (addHandler h w) = next_id w"
  "logger_levels (addHandler h w) = logger_levels w"
  "signal_handlers (addHandler h w) = signal_handlers w"
  "trace (addHandler h w) = trace w"
  by (simp_all add: addHandler_def)

lemma log_call_fields [simp]:
  "root_level (log_call n lv m w) = root_level w"
  "root_handlers (log_call n lv m w) = root_handlers w"
  "objects (log_call n lv m w) = objects w"
  "next_id (log_call n lv m w) = next_id w"
  "logger_levels (log_call n lv m w) = logger_levels w"
  "signal_handlers (log_call n lv m w) = signal_handlers w"
  "trace (log_call n lv m w) = trace w @ [LogCall n lv m (emitted_to w n lv)]"
  by (simp_all add: log_call_def)

lemma isinstance_cong:
  "map_option cls (objects w h) = map_option cls (objects w' h) \<Longrightarrow>
   isinstance_RotatingFileHandler w h = isinstance_RotatingFileHandler w' h"
  by (auto simp: isinstance_RotatingFileHandler_def split: option.splits)

lemma isinstance_close_remove [simp]:
  "isinstance_RotatingFileHandler (close h (removeHandler h w)) = isinstance_RotatingFileHandler w"
  by (rule ext, rule isinstance_cong) (simp add: option.map_comp comp_def)

lemma remove_file_handlers_isinstance [simp]:
  "isinstance_RotatingFileHandler (remove_file_handlers xs w) = isinstance_RotatingFileHandler w"
  by (induction xs arbitrary: w) simp_all

lemma remove_file_handlers_fields [simp]:
  "root_level (remove_file_handlers xs w) = root_level w"
  "next_id (remove_file_handlers xs w) = next_id w"
  "logger_levels (remove_file_handlers xs w) = logger_levels w"
  "signal_handlers (remove_file_handlers xs w) = signal_handlers w"
  "trace (remove_file_handlers xs w) = trace w"
  by (induction xs arbitrary: w) simp_all

lemma remove_file_handlers_handlers_gen:
  "root_handlers w = filter (\<lambda>h. \<not> isinstance_RotatingFileHandler w h) pre @ xs \<Longrightarrow>
   root_handlers (remove_file_handlers xs w) =
     filter (\<lambda>h. \<not> isinstance_RotatingFileHandler w h) (pre @ xs)"
proof (induction xs arbitrary: w pre)
  case Nil
  then show ?case by simp
next
  case (Cons x xs)
  show ?case
  proof (cases "isinstance_RotatingFileHandler w x")
    case True
    let ?w = "close x (removeHandler x w)"
    have "root_handlers ?w = filter (\<lambda>h. \<not> isinstance_RotatingFileHandler ?w h) pre @ xs"
      using Cons.prems True by (simp add: remove1_append)
    from Cons.IH [OF this] True show ?thesis by simp
  next
    case False
    have "root_handlers w = filter (\<lambda>h. \<not> isinstance_RotatingFileHandler w h) (pre @ [x]) @ xs"
      using Cons.prems False by simp
    from Cons.IH [OF this] False show ?thesis by simp
  qed
qed

lemma remove_file_handlers_handlers:
  "root_handlers (remove_file_handlers (root_handlers w) w) =
     filter (\<lambda>h. \<not> isinstance_RotatingFileHandler w h) (root_handlers w)"
  using remove_file_handlers_handlers_gen [of w "[]" "root_handlers w"] by simp

lemma remove_file_handlers_objects:
  "objects (remove_file_handlers xs w) h =
     (if h \<in> set xs \<and> isinstance_RotatingFileHandler w h
      then map_option (\<lambda>ob. ob\<lparr>stream_open := False\<rparr>) (objects w h) else objects w h)"
proof (induction xs arbitrary: w)
  case Nil
  then show ?case by simp
next
  case (Cons x xs)
  show ?case
    by (auto simp: Cons.IH option.map_comp comp_def)
qed

lemma set_handler_levels_fields [simp]:
  "root_level (set_handler_levels xs lv w) = root_level w"
  "root_handlers (set_handler_levels xs lv w) = root_handlers w"
  "next_id (set_handler_levels xs lv w) = next_id w"
  "logger_levels (set_handler_levels xs lv w) = logger_levels w"
  "signal_handlers (set_handler_levels xs lv w) = signal_handlers w"
  "trace (set_handler_levels xs lv w) = trace w"
  by (induction xs arbitrary: w) simp_all

lemma set_handler_levels_objects:
  "objects (set_handler_levels xs lv w) h =
     (if h \<in> set xs then map_option (\<lambda>ob. ob\<lparr>hlevel := lv\<rparr>) (objects w h) else objects w h)"
  by (induction xs arbitrary: w) (simp_all add: option.map_comp comp_def)


subsection \<open>The module level\<close>


lemma module_init_no_dir:
  "\<not> mkdir_ok env log_dir \<Longrightarrow> module_init env w = (w, Some (OSError log_dir))"
  by (simp add: module_init_def)

lemma module_init_no_file:
  assumes "mkdir_ok env log_dir" "\<not> open_ok env log_file"
  shows "snd (module_init env w) = Some (OSError log_file)"
    and "root_handlers (fst (module_init env w)) = [next_id w]"
    and "objects (fst (module_init env w)) (next_id w) =
           Some \<lparr>cls = StreamHandler, hlevel = INFO, formatter = Some (log_format, date_format),
                 stream_open = True\<rparr>"
  using assms
  by (simp_all add: module_init_def new_StreamHandler_def new_RotatingFileHandler_def
      new_object_def Let_def)

lemma module_init_ok:
  assumes "mkdir_ok env log_dir" "open_ok env log_file"
  shows "snd (module_init env w) = None"
    and "root_level (fst (module_init env w)) = INFO"
    and "root_handlers (fst (module_init env w)) = [next_id w, Suc (next_id w)]"
    and "next_id (fst (module_init env w)) = Suc (Suc (next_id w))"
    and "logger_levels (fst (module_init env w)) = logger_levels w"
    and "signal_handlers (fst (module_init env w)) =
           (signal_handlers w)(SIGTERM \<mapsto> Handle_shutdown, SIGINT \<mapsto> Handle_shutdown)"
    and "objects (fst (module_init env w)) h =
           (if h = next_id w
            then Some \<lparr>cls = StreamHandler, hlevel = INFO,
                       formatter = Some (log_format, date_format), stream_open = True\<rparr>
            else if h = Suc (next_id w)
            then Some \<lparr>cls = RotatingFileHandler (abspath env log_file) (10 * 1024 * 1024) 5
                               ''utf-8'',
                       hlevel = INFO, formatter = Some (log_format, date_format),
                       stream_open = True\<rparr>
            else objects w h)"
    and "os_name env \<noteq> ''nt'' \<Longrightarrow> trace (fst (module_init env w)) = trace w"
  using assms
  by (simp_all add: module_init_def new_StreamHandler_def new_RotatingFileHandler_def
      new_object_def signal_signal_def logger_info_def Let_def)

lemma module_init_isinstance:
  assumes "mkdir_ok env log_dir" "open_ok env log_file"
  shows "isinstance_RotatingFileHandler (fst (module_init env w)) h =
           (if h = next_id w then False
            else if h = Suc (next_id w) then True
            else isinstance_RotatingFileHandler w h)"
  by (simp add: isinstance_RotatingFileHandler_def module_init_ok [OF assms])

subsection \<open>The main block\<close>


lemma module_init_None_iff:
  "snd (module_init env w) = None \<longleftrightarrow> mkdir_ok env log_dir \<and> open_ok env log_file"
  by (cases "mkdir_ok env log_dir"; cases "open_ok env log_file")
     (simp_all add: module_init_no_dir module_init_no_file module_init_ok)

lemma new_object_fields [simp]:
  "fst (new_object ob w) = next_id w"
  "root_level (snd (new_object ob w)) = root_level w"
  "root_handlers (snd (new_object ob w)) = root_handlers w"
  "next_id (snd (new_object ob w)) = Suc (next_id w)"
  "logger_levels (snd (new_object ob w)) = logger_levels w"
  "signal_handlers (snd (new_object ob w)) = signal_handlers w"
  "trace (snd (new_object ob w)) = trace w"
  "objects (snd (new_object ob w)) = (objects w)(next_id w \<mapsto> ob)"
  by (simp_all add: new_object_def)

lemma configure_log_file_frame [simp]:
  "root_level (fst (configure_log_file env a w)) = root_level w"
  "logger_levels (fst (configure_log_file env a w)) = logger_levels w"
  "signal_handlers (fst (configure_log_file env a w)) = signal_handlers w"
  "trace (fst (configure_log_file env a w)) = trace w"
  by (simp_all add: configure_log_file_def new_RotatingFileHandler_def Let_def split_beta
      split: option.splits)

lemma getLogger_setLevel_fields [simp]:
  "root_level (getLogger_setLevel n lv w) = root_level w"
  "root_handlers (getLogger_setLevel n lv w) = root_handlers w"
  "objects (getLogger_setLevel n lv w) = objects w"
  "next_id (getLogger_setLevel n lv w) = next_id w"
  "logger_levels (getLogger_setLevel n lv w) = (logger_levels w)(n \<mapsto> lv)"
  "signal_handlers (getLogger_setLevel n lv w) = signal_handlers w"
  "trace (getLogger_setLevel n lv w) = trace w"
  by (simp_all add: getLogger_setLevel_def)

lemma startup_fields [simp]:
  "root_level (startup a ll w) = logging_getattr (upper ll)"
  "root_handlers (startup a ll w) = root_handlers w"
  "next_id (startup a ll w) = next_id w"
  "signal_handlers (startup a ll w) = signal_handlers w"
  by (simp_all add: startup_def Let_def logger_info_def split: list.splits)

lemma startup_objects:
  "objects (startup a ll w) h =
     (if h \<in> set (root_handlers w)
      then map_option (\<lambda>ob. ob\<lparr>hlevel := logging_getattr (upper ll)\<rparr>) (objects w h)
      else objects w h)"
  by (simp add: startup_def Let_def logger_info_def set_handler_levels_objects split: list.splits)

lemma startup_logger_levels:
  "logger_levels (startup a ll w) =
     (if lower ll = ''debug''
      then (logger_levels w)(''src'' \<mapsto> DEBUG, ''langchain'' \<mapsto> DEBUG, ''langgraph'' \<mapsto> DEBUG)
      else logger_levels w)"
  by (simp add: startup_def Let_def logger_info_def split: list.splits)

lemma emitted_to_trace_update [simp]:
  "emitted_to (w\<lparr>trace := t\<rparr>) n lv = emitted_to w n lv"
proof -
  have "getEffectiveLevel (w\<lparr>trace := t\<rparr>) n = getEffectiveLevel w n"
    by (simp add: getEffectiveLevel_def split: option.splits)
  moreover have "handles (w\<lparr>trace := t\<rparr>) lv = handles w lv"
    by (rule ext) (simp add: handles_def)
  ultimately show ?thesis
    by (simp add: emitted_to_def)
qed

lemma run_server_outcome:
  "snd (run_server env a r ll w) =
     (case serve_result env of
        Returns \<Rightarrow> Finished
      | Raises e \<Rightarrow> SystemExit 1
      | Raises_SystemExit c \<Rightarrow> SystemExit c
      | Raises_KeyboardInterrupt \<Rightarrow> Uncaught KeyboardInterrupt
      | Signalled s \<Rightarrow> (case signal_handlers w s of None \<Rightarrow> Killed s | Some f \<Rightarrow> SystemExit 0))"
  by (simp add: run_server_def Let_def handle_shutdown_def
      split: serve_result.splits option.splits sig_handler.splits)

lemma run_server_trace:
  "trace (fst (run_server env a r ll w)) =
     trace (startup a ll w) @ [ServeCall ''src.server:app'' (args_host a) (args_port a) r ll] @
     (case serve_result env of
        Returns \<Rightarrow> []
      | Raises e \<Rightarrow> [LogCall logger_name ERROR (''Failed to start server: '' @ e)
                       (emitted_to (startup a ll w) logger_name ERROR)]
      | Raises_SystemExit c \<Rightarrow> []
      | Raises_KeyboardInterrupt \<Rightarrow> []
      | Signalled s \<Rightarrow>
          (case signal_handlers w s of
             None \<Rightarrow> []
           | Some f \<Rightarrow> [LogCall logger_name INFO
                          ''Received shutdown signal. Starting graceful shutdown...''
                          (emitted_to (startup a ll w) logger_name INFO)]))"
  by (simp add: run_server_def Let_def handle_shutdown_def logger_info_def logger_error_def
      split: serve_result.splits option.splits sig_handler.splits)

lemma run_server_frame [simp]:
  "root_level (fst (run_server env a r ll w)) = logging_getattr (upper ll)"
  "root_handlers (fst (run_server env a r ll w)) = root_handlers w"
  "objects (fst (run_server env a r ll w)) = objects (startup a ll w)"
  "logger_levels (fst (run_server env a r ll w)) = logger_levels (startup a ll w)"
  by (simp_all add: run_server_def Let_def handle_shutdown_def logger_info_def logger_error_def
      split: serve_result.splits option.splits sig_handler.splits)

lemma main_ok:
  assumes "snd (module_init env w0) = None"
    and "parse_args (argv env) = Inr a"
    and "snd (configure_log_file env a (fst (module_init env w0))) = None"
  shows "main env w0 =
     run_server env a (args_reload a) (resolve_log_level env a)
       (fst (configure_log_file env a (fst (module_init env w0))))"
proof -
  obtain w1 where m: "module_init env w0 = (w1, None)"
    using assms(1) by (cases "module_init env w0") simp
  obtain w2 where c: "configure_log_file env a w1 = (w2, None)"
    using assms(3) m by (cases "configure_log_file env a w1") simp
  show ?thesis
    by (simp add: main_def m c assms(2))
qed


subsection \<open>Examples and the removal loop\<close>


lemma example_env_simps [simp]:
  "argv example_env = []"
  "DEBUG_var example_env = None"
  "os_name example_env = ''posix''"
  "mkdir_ok example_env p"
  "parent_mkdir_ok example_env p"
  "open_ok example_env p"
  "abspath example_env p = ''/srv/app/'' @ p"
  "serve_result example_env = Returns"
  by (simp_all add: example_env_def)

lemma fresh_process_simps [simp]:
  "root_level fresh_process = WARNING"
  "root_handlers fresh_process = []"
  "objects fresh_process = Map.empty"
  "next_id fresh_process = 0"
  "logger_levels fresh_process = Map.empty"
  "signal_handlers fresh_process = Map.empty"
  "trace fresh_process = []"
  by (simp_all add: fresh_process_def)

lemma file_handlers_removed [simp]:
  "file_handlers (remove_file_handlers (root_handlers w) w) = []"
  by (simp add: file_handlers_def remove_file_handlers_handlers)

lemma isinstance_object:
  "isinstance_RotatingFileHandler w h \<Longrightarrow> \<exists>ob. objects w h = Some ob"
  by (auto simp: isinstance_RotatingFileHandler_def split: option.splits)

subsection \<open>Strings and the five choices\<close>

lemmas string_eval = upper_def lower_def upper_char_def lower_char_def ascii_lowercase_def
  ascii_uppercase_def digits_def whitespace_def is_space_def is_digit_def digit_val_def
  py_int_def strip_def str_int_def space_to_ascii_def int_max_str_digits_def Let_def

lemma upper_choices [simp]:
  "upper ''debug'' = ''DEBUG''"
  "upper ''info'' = ''INFO''"
  "upper ''warning'' = ''WARNING''"
  "upper ''error'' = ''ERROR''"
  "upper ''critical'' = ''CRITICAL''"
  by (simp_all add: string_eval)

lemma lower_choices [simp]:
  "lower ''debug'' = ''debug''"
  "lower ''info'' = ''info''"
  "lower ''warning'' = ''warning''"
  "lower ''error'' = ''error''"
  "lower ''critical'' = ''critical''"
  "lower [] = []"
  by (simp_all add: string_eval)

lemma logging_getattr_choices [simp]:
  "logging_getattr ''DEBUG'' = DEBUG"
  "logging_getattr ''INFO'' = INFO"
  "logging_getattr ''WARNING'' = WARNING"
  "logging_getattr ''ERROR'' = ERROR"
  "logging_getattr ''CRITICAL'' = CRITICAL"
  by (simp_all add: logging_getattr_def)

lemma choices_cases:
  "ll \<in> set choices \<longleftrightarrow>
     ll = ''debug'' \<or> ll = ''info'' \<or> ll = ''warning'' \<or> ll = ''error'' \<or> ll = ''critical''"
  by (simp add: choices_def)

lemma choices_debug_iff:
  "ll \<in> set choices \<Longrightarrow> logging_getattr (upper ll) = DEBUG \<longleftrightarrow> lower ll = ''debug''"
  by (auto simp: choices_cases level_defs)

lemma parse_opts_log_level:
  "parse_opts av ex a = Inr a' \<Longrightarrow> args_log_level a \<in> set choices \<Longrightarrow>
   args_log_level a' \<in> set choices"
proof (induction av ex a rule: parse_opts.induct)
  case (4 s rest extras a)
  then show ?case by (auto split: option.splits)
qed (auto split: if_splits)

lemma defaults_simps [simp]:
  "args_reload defaults = False"
  "args_host defaults = ''localhost''"
  "args_port defaults = 8000"
  "args_log_level defaults = ''info''"
  "args_log_file defaults = None"
  by (simp_all add: defaults_def)

lemma parse_args_log_level:
  "parse_args av = Inr a \<Longrightarrow> args_log_level a \<in> set choices"
  unfolding parse_args_def
  by (erule parse_opts_log_level) (simp add: choices_def)

lemma resolve_log_level_choices:
  "parse_args (argv env) = Inr a \<Longrightarrow> resolve_log_level env a \<in> set choices"
proof -
  assume "parse_args (argv env) = Inr a"
  then have "args_log_level a \<in> set choices"
    by (rule parse_args_log_level)
  moreover have "''debug'' \<in> set choices"
    by (simp add: choices_def)
  ultimately show ?thesis
    by (simp add: resolve_log_level_def)
qed

lemma parse_args_nil [simp]: "parse_args [] = Inr defaults"
  by (simp add: parse_args_def)

lemma configure_log_file_absent [simp]:
  "args_log_file a = None \<Longrightarrow> configure_log_file env a w = (w, None)"
  by (simp add: configure_log_file_def)

lemma module_init_signal_handlers:
  "snd (module_init env w) = None \<Longrightarrow> signal_handlers (fst (module_init env w)) s = Some Handle_shutdown"
  by (cases s) (simp_all add: module_init_None_iff module_init_ok)

lemma emitted_to_cong:
  assumes "root_level w = root_level w'" "root_handlers w = root_handlers w'"
    "objects w = objects w'" "logger_levels w = logger_levels w'"
  shows "emitted_to w n lv = emitted_to w' n lv"
proof -
  have "getEffectiveLevel w n = getEffectiveLevel w' n"
    using assms by (simp add: getEffectiveLevel_def split: option.splits)
  moreover have "handles w lv = handles w' lv"
    using assms by (simp add: handles_def fun_eq_iff)
  ultimately show ?thesis
    using assms by (simp add: emitted_to_def)
qed

lemma startup_trace:
  "trace (startup a ll w) =
     trace w
     @ [LogCall logger_name INFO
          (''Starting DeerFlow API server on '' @ args_host a @ '':'' @ str_int (args_port a))
          (emitted_to w logger_name INFO),
        LogCall logger_name INFO (''Log level: '' @ upper ll) (emitted_to w logger_name INFO)]
     @ (case file_handlers w of
          [] \<Rightarrow> []
        | h # rest \<Rightarrow> [LogCall logger_name INFO (''Log file: '' @ baseFilename_of w h)
                        (emitted_to w logger_name INFO)])
     @ (if lower ll = ''debug''
        then [LogCall logger_name INFO debug_enabled_msg
                (emitted_to (startup a ll w) logger_name INFO)]
        else [])"
proof -
  have "isinstance_RotatingFileHandler (log_call n lv m w') = isinstance_RotatingFileHandler w'"
    for n lv m w'
    by (simp add: fun_eq_iff isinstance_RotatingFileHandler_def)
  then have fh: "file_handlers (log_call n lv m w') = file_handlers w'" for n lv m w'
    by (simp add: file_handlers_def)
  have base: "baseFilename_of (log_call n lv m w') = baseFilename_of w'" for n lv m w'
    by (simp add: baseFilename_of_def fun_eq_iff)
  have em: "emitted_to (log_call n lv m w') = emitted_to w'" for n lv m w'
    by (intro ext emitted_to_cong) simp_all
  show ?thesis
  proof (cases "lower ll = ''debug''")
    case False
    then show ?thesis
      by (simp add: startup_def Let_def logger_info_def fh base em split: list.splits)
  next
    case True
    have "emitted_to (startup a ll w) logger_name INFO =
          emitted_to (getLogger_setLevel ''langgraph'' DEBUG
            (getLogger_setLevel ''langchain'' DEBUG (getLogger_setLevel ''src'' DEBUG
              (set_handler_levels (root_handlers w) (logging_getattr (upper ll))
                (w\<lparr>root_level := logging_getattr (upper ll)\<rparr>))))) logger_name INFO"
      using True
      by (intro emitted_to_cong)
         (simp_all add: startup_def Let_def logger_info_def fun_eq_iff set_handler_levels_objects
            split: list.splits)
    with True show ?thesis
      by (simp add: startup_def Let_def logger_info_def fh base em
          split: list.splits)
  qed
qed

lemma module_init_file_handlers:
  assumes "mkdir_ok env log_dir" "open_ok env log_file"
  shows "file_handlers (fst (module_init env w)) = [Suc (next_id w)]"
    and "h = Suc (next_id w) \<Longrightarrow> baseFilename_of (fst (module_init env w)) h = abspath env log_file"
  by (simp_all add: file_handlers_def baseFilename_of_def module_init_ok [OF assms]
      module_init_isinstance [OF assms])

lemma module_init_emitted_to:
  assumes "mkdir_ok env log_dir" "open_ok env log_file" "logger_levels w n = None"
  shows "emitted_to (fst (module_init env w)) n lv =
           (if INFO \<le> lv then [next_id w, Suc (next_id w)] else [])"
  using assms(3)
  by (simp add: emitted_to_def getEffectiveLevel_def handles_def module_init_ok [OF assms(1,2)])

lemma startup_emitted_to:
  assumes "logger_levels w n = None" "n \<notin> {''src'', ''langchain'', ''langgraph''}"
  shows "emitted_to (startup a ll w) n lv =
           (if logging_getattr (upper ll) \<le> lv
            then filter (\<lambda>h. objects w h \<noteq> None) (root_handlers w) else [])"
proof -
  have "logger_levels (startup a ll w) n = None"
    using assms by (simp add: startup_logger_levels)
  moreover have "filter (handles (startup a ll w) lv) (root_handlers w) =
        filter (\<lambda>h. objects w h \<noteq> None) (root_handlers w)"
    if "logging_getattr (upper ll) \<le> lv"
    using that by (intro filter_cong) (auto simp: handles_def startup_objects split: option.splits)
  ultimately show ?thesis
    by (simp add: emitted_to_def getEffectiveLevel_def)
qed

lemma example_paths [simp]:
  "log_dir = ''logs''" "log_file = ''logs/academic-agent.log''"
  by (simp_all add: log_dir_def log_file_def)

lemma fresh_startup_trace:
  assumes "mkdir_ok env log_dir" "open_ok env log_file" "os_name env \<noteq> ''nt''"
  shows "trace (startup a ll (fst (module_init env fresh_process))) =
     [LogCall ''__main__'' 20
        (''Starting DeerFlow API server on '' @ args_host a @ '':'' @ str_int (args_port a)) [0, 1],
      LogCall ''__main__'' 20 (''Log level: '' @ upper ll) [0, 1],
      LogCall ''__main__'' 20 (''Log file: '' @ abspath env ''logs/academic-agent.log'') [0, 1]]
     @ (if lower ll = ''debug''
        then [LogCall ''__main__'' 20 debug_enabled_msg
                (if logging_getattr (upper ll) \<le> 20 then [0, 1] else [])]
        else [])"
    and "emitted_to (startup a ll (fst (module_init env fresh_process))) ''__main__'' lv =
           (if logging_getattr (upper ll) \<le> lv then [0, 1] else [])"
  using assms(3)
  by (simp_all add: startup_trace startup_emitted_to module_init_file_handlers [OF assms(1,2)]
      module_init_emitted_to [OF assms(1,2)] module_init_ok [OF assms(1,2)]
      logger_name_def INFO_def)

lemma module_init_logger_levels:
  "snd (module_init env w) = None \<Longrightarrow> logger_levels (fst (module_init env w)) = logger_levels w"
  by (simp add: module_init_None_iff module_init_ok)

subsection \<open>The log-file configuration after the module level\<close>

lemma init_removed:
  assumes "mkdir_ok env log_dir" "open_ok env log_file"
  shows "root_handlers (remove_file_handlers (root_handlers (fst (module_init env w)))
           (fst (module_init env w))) = [next_id w]"
    and "objects (remove_file_handlers (root_handlers (fst (module_init env w)))
           (fst (module_init env w))) h =
         (if h = Suc (next_id w)
          then Some \<lparr>cls = RotatingFileHandler (abspath env log_file) (10 * 1024 * 1024) 5 ''utf-8'',
                     hlevel = INFO, formatter = Some (log_format, date_format),
                     stream_open = False\<rparr>
          else objects (fst (module_init env w)) h)"
  by (simp_all add: remove_file_handlers_handlers remove_file_handlers_objects
      module_init_ok [OF assms] module_init_isinstance [OF assms])

lemma configure_init_exn:
  assumes "mkdir_ok env log_dir" "open_ok env log_file"
  shows "snd (configure_log_file env a (fst (module_init env w))) =
     (case args_log_file a of
        None \<Rightarrow> None
      | Some f \<Rightarrow> if f = [] then None
                  else if parent_mkdir_ok env f \<and> open_ok env f then None
                  else Some (OSError f))"
  by (simp add: configure_log_file_def new_RotatingFileHandler_def Let_def split_beta
      split: option.splits)

lemma configure_init_handlers:
  assumes "mkdir_ok env log_dir" "open_ok env log_file"
  shows "root_handlers (fst (configure_log_file env a (fst (module_init env w)))) =
     (case args_log_file a of
        None \<Rightarrow> [next_id w, Suc (next_id w)]
      | Some f \<Rightarrow> if f = [] then [next_id w]
                  else if \<not> parent_mkdir_ok env f then [next_id w, Suc (next_id w)]
                  else if \<not> open_ok env f then [next_id w]
                  else [next_id w, Suc (Suc (next_id w))])"
  by (simp add: configure_log_file_def new_RotatingFileHandler_def Let_def split_beta
      module_init_ok [OF assms] module_init_isinstance [OF assms] split: option.splits)

lemma configure_init_objects:
  assumes "mkdir_ok env log_dir" "open_ok env log_file"
  shows "objects (fst (configure_log_file env a (fst (module_init env w)))) h =
     (case args_log_file a of
        None \<Rightarrow> objects (fst (module_init env w)) h
      | Some f \<Rightarrow>
          if f \<noteq> [] \<and> \<not> parent_mkdir_ok env f then objects (fst (module_init env w)) h
          else if h = Suc (next_id w)
          then Some \<lparr>cls = RotatingFileHandler (abspath env log_file) (10 * 1024 * 1024) 5 ''utf-8'',
                     hlevel = INFO, formatter = Some (log_format, date_format),
                     stream_open = False\<rparr>
          else if h = Suc (Suc (next_id w)) \<and> f \<noteq> [] \<and> open_ok env f
          then Some \<lparr>cls = RotatingFileHandler (abspath env f) (10 * 1024 * 1024) 5 ''utf-8'',
                     hlevel = INFO, formatter = Some (log_format, date_format),
                     stream_open = True\<rparr>
          else objects (fst (module_init env w)) h)"
  by (simp add: configure_log_file_def new_RotatingFileHandler_def Let_def split_beta
      module_init_ok [OF assms] module_init_isinstance [OF assms] split: option.splits)

lemma configured_levels:
  assumes "snd (module_init env w0) = None"
    and "snd (configure_log_file env a (fst (module_init env w0))) = None"
    and "h \<in> set (root_handlers (fst (configure_log_file env a (fst (module_init env w0)))))"
  shows "map_option hlevel (objects (fst (configure_log_file env a (fst (module_init env w0)))) h)
           = Some INFO"
proof -
  from assms(1) have ok: "mkdir_ok env log_dir" "open_ok env log_file"
    by (simp_all add: module_init_None_iff)
  show ?thesis
    using assms(2,3)
    by (auto simp: configure_init_exn [OF ok] configure_init_handlers [OF ok]
        configure_init_objects [OF ok] module_init_ok [OF ok] split: option.splits if_splits)
qed

subsection \<open>The whole run after a successful module level\<close>

lemma main_after_init:
  assumes "snd (module_init env w0) = None"
  shows "main env w0 =
     (case parse_args (argv env) of
        Inl Help_exit \<Rightarrow>
          (fst (module_init env w0)\<lparr>trace := trace (fst (module_init env w0)) @ [Help_message]\<rparr>,
           SystemExit 0)
      | Inl (Usage_error bad) \<Rightarrow>
          (fst (module_init env w0)\<lparr>trace := trace (fst (module_init env w0)) @ [Usage bad]\<rparr>,
           SystemExit 2)
      | Inr a \<Rightarrow>
          (case snd (configure_log_file env a (fst (module_init env w0))) of
             Some e \<Rightarrow> (fst (configure_log_file env a (fst (module_init env w0))), Uncaught e)
           | None \<Rightarrow> run_server env a (args_reload a) (resolve_log_level env a)
                       (fst (configure_log_file env a (fst (module_init env w0))))))"
proof -
  obtain w1 where m: "module_init env w0 = (w1, None)"
    using assms by (cases "module_init env w0") simp
  show ?thesis
    by (cases "configure_log_file env (projr (parse_args (argv env))) w1")
       (auto simp: main_def m split: sum.splits option.splits parse_exit.splits)
qed

lemma file_handlers_cong:
  "root_handlers w = root_handlers w' \<Longrightarrow> objects w = objects w' \<Longrightarrow>
   file_handlers w = file_handlers w'"
  by (simp add: file_handlers_def isinstance_RotatingFileHandler_def [abs_def])

lemma startup_isinstance:
  "isinstance_RotatingFileHandler (startup a ll w) h = isinstance_RotatingFileHandler w h"
  by (rule isinstance_cong) (simp add: startup_objects option.map_comp comp_def)

lemma run_server_file_handlers:
  "file_handlers (fst (run_server env a r ll w)) = file_handlers w"
  by (simp add: file_handlers_def isinstance_RotatingFileHandler_def [abs_def] startup_objects
      option.map_comp comp_def split: option.splits cong: filter_cong)

lemma configure_init_file_handlers:
  assumes "mkdir_ok env log_dir" "open_ok env log_file"
  shows "file_handlers (fst (configure_log_file env a (fst (module_init env w)))) =
     (case args_log_file a of
        None \<Rightarrow> [Suc (next_id w)]
      | Some f \<Rightarrow> if f = [] then []
                  else if \<not> parent_mkdir_ok env f then [Suc (next_id w)]
                  else if \<not> open_ok env f then []
                  else [Suc (Suc (next_id w))])"
  by (simp add: file_handlers_def isinstance_RotatingFileHandler_def
      configure_init_handlers [OF assms] configure_init_objects [OF assms]
      module_init_ok [OF assms] split: option.splits)

lemma main_file_handlers:
  assumes "snd (module_init env w0) = None"
  shows "file_handlers (fst (main env w0)) =
     (case parse_args (argv env) of
        Inl bad \<Rightarrow> [Suc (next_id w0)]
      | Inr a \<Rightarrow> file_handlers (fst (configure_log_file env a (fst (module_init env w0)))))"
proof -
  from assms have ok: "mkdir_ok env log_dir" "open_ok env log_file"
    by (simp_all add: module_init_None_iff)
  have "file_handlers (w\<lparr>trace := t\<rparr>) = file_handlers w" for w t
    by (rule file_handlers_cong) simp_all
  then show ?thesis
    by (simp add: main_after_init [OF assms] run_server_file_handlers
        module_init_file_handlers [OF ok] split: sum.splits option.splits parse_exit.splits)
qed

subsection \<open>What the parser rejects\<close>

lemma parse_opts_port_refused:
  "parse_opts av ex a = Inl (Usage_error [Port s]) \<Longrightarrow>
   (\<forall>x \<in> set ex. \<exists>u. x = Unrecognized u) \<Longrightarrow> py_int s = None"
proof (induction av ex a rule: parse_opts.induct)
  case (4 s' rest extras a)
  then show ?case by (auto split: option.splits)
qed (auto split: if_splits)

lemma parse_opts_Inr_extras:
  "parse_opts av ex a = Inr a' \<Longrightarrow> ex = []"
proof (induction av ex a rule: parse_opts.induct)
  case (4 s rest extras a)
  then show ?case by (auto split: option.splits)
qed (auto split: if_splits)

lemma parse_opts_append:
  "parse_opts av [] a = Inr a' \<Longrightarrow> parse_opts (av @ bv) [] a = parse_opts bv [] a'"
proof (induction av arbitrary: a)
  case Nil
  then show ?case by simp
next
  case (Cons x av)
  then show ?case
    by (cases x) (auto split: option.splits if_splits dest: parse_opts_Inr_extras)
qed

section \<open>The claims\<close>

text \<open>
  The claim C1 says that \<open>--port 99999\<close> is rejected with a usage message before any sink is
  attached. The parser accepts it: the run has both handlers attached from the module
  level, prints no usage error, logs port 99999 in its first line and calls the server
  with it; it ends with status 1 because the server call raises, not because of parsing.
\<close>

theorem port_99999_is_accepted:
  "parse_args [Port ''99999''] = Inr (defaults\<lparr>args_port := 99999\<rparr>)
   \<and> root_handlers (fst (module_init
        (example_env\<lparr>argv := [Port ''99999''],
                     serve_result := Raises ''bind(): port must be 0-65535.''\<rparr>) fresh_process))
      = [0, 1]
   \<and> snd (main (example_env\<lparr>argv := [Port ''99999''],
                         serve_result := Raises ''bind(): port must be 0-65535.''\<rparr>) fresh_process)
      = SystemExit 1
   \<and> trace (fst (main (example_env\<lparr>argv := [Port ''99999''],
                         serve_result := Raises ''bind(): port must be 0-65535.''\<rparr>) fresh_process))
      = [LogCall ''__main__'' 20 ''Starting DeerFlow API server on localhost:99999'' [0, 1],
         LogCall ''__main__'' 20 ''Log level: INFO'' [0, 1],
         LogCall ''__main__'' 20 ''Log file: /srv/app/logs/academic-agent.log'' [0, 1],
         ServeCall ''src.server:app'' ''localhost'' 99999 False ''info'',
         LogCall ''__main__'' 40 ''Failed to start server: bind(): port must be 0-65535.'' [0, 1]]"
proof -
  let ?e = "example_env\<lparr>argv := [Port ''99999''],
                        serve_result := Raises ''bind(): port must be 0-65535.''\<rparr>"
  let ?a = "defaults\<lparr>args_port := 99999\<rparr>"
  have p: "parse_args [Port ''99999''] = Inr ?a"
    by (simp add: parse_args_def string_eval)
  have m: "main ?e fresh_process = run_server ?e ?a False ''info'' (fst (module_init ?e fresh_process))"
    by (subst main_ok [where a = ?a])
       (simp_all add: p module_init_None_iff resolve_log_level_def getenv_DEBUG_def)
  have t: "trace (fst (main ?e fresh_process))
      = [LogCall ''__main__'' 20 ''Starting DeerFlow API server on localhost:99999'' [0, 1],
         LogCall ''__main__'' 20 ''Log level: INFO'' [0, 1],
         LogCall ''__main__'' 20 ''Log file: /srv/app/logs/academic-agent.log'' [0, 1],
         ServeCall ''src.server:app'' ''localhost'' 99999 False ''info'',
         LogCall ''__main__'' 40 ''Failed to start server: bind(): port must be 0-65535.'' [0, 1]]"
    by (simp add: m run_server_trace fresh_startup_trace str_int_def digits_def logger_name_def
        level_defs)
  have o: "snd (main ?e fresh_process) = SystemExit 1"
    by (simp add: m run_server_outcome)
  have h: "root_handlers (fst (module_init ?e fresh_process)) = [0, 1]"
    by (simp add: module_init_ok)
  from p t o h show ?thesis
    by simp
qed

text \<open>
  C1, as the script does it. The value of \<open>--port\<close> goes through \<open>int\<close> and no range is
  checked. Adding \<open>--port s\<close> to an accepted command line, for any \<open>s\<close> that \<open>int\<close> reads,
  gives an accepted command line with that integer as the port, whatever its size; a usage
  error that names a \<open>--port\<close> value comes only for a value that \<open>int\<close> refuses; and the
  server is called with the parsed port as it is. Both handlers are attached at the module
  level, before the command line is parsed: when parsing ends in a usage error, with
  status 2, they are already attached.
\<close>

theorem port_not_range_checked:
  assumes "snd (module_init env w0) = None"
  shows "(\<forall>av a s n. parse_args av = Inr a \<and> py_int s = Some n \<longrightarrow>
            parse_args (av @ [Port s]) = Inr (a\<lparr>args_port := n\<rparr>))
       \<and> (\<forall>s. parse_args (argv env) = Inl (Usage_error [Port s]) \<longrightarrow> py_int s = None)
       \<and> (\<forall>a. parse_args (argv env) = Inr a
              \<and> snd (configure_log_file env a (fst (module_init env w0))) = None \<longrightarrow>
            ServeCall ''src.server:app'' (args_host a) (args_port a) (args_reload a)
              (resolve_log_level env a) \<in> set (trace (fst (main env w0))))
       \<and> (\<forall>bad. parse_args (argv env) = Inl (Usage_error bad) \<longrightarrow>
            main env w0 =
              (fst (module_init env w0)\<lparr>trace := trace (fst (module_init env w0)) @ [Usage bad]\<rparr>,
               SystemExit 2)
          \<and> root_handlers (fst (main env w0)) = [next_id w0, Suc (next_id w0)]
          \<and> file_handlers (fst (main env w0)) = [Suc (next_id w0)])"
proof -
  from assms have ok: "mkdir_ok env log_dir" "open_ok env log_file"
    by (simp_all add: module_init_None_iff)
  have 1: "parse_args (av @ [Port s]) = Inr (a\<lparr>args_port := n\<rparr>)"
    if "parse_args av = Inr a" "py_int s = Some n" for av a s n
    using that by (simp add: parse_args_def parse_opts_append)
  have 2: "py_int s = None" if "parse_args (argv env) = Inl (Usage_error [Port s])" for s
    using that parse_opts_port_refused [of "argv env" "[]" defaults s]
    by (simp add: parse_args_def)
  have 3: "ServeCall ''src.server:app'' (args_host a) (args_port a) (args_reload a)
              (resolve_log_level env a) \<in> set (trace (fst (main env w0)))"
    if "parse_args (argv env) = Inr a"
      "snd (configure_log_file env a (fst (module_init env w0))) = None" for a
    by (simp add: main_ok [OF assms that] run_server_trace)
  have 4: "main env w0 =
              (fst (module_init env w0)\<lparr>trace := trace (fst (module_init env w0)) @ [Usage bad]\<rparr>,
               SystemExit 2)
          \<and> root_handlers (fst (main env w0)) = [next_id w0, Suc (next_id w0)]
          \<and> file_handlers (fst (main env w0)) = [Suc (next_id w0)]"
    if "parse_args (argv env) = Inl (Usage_error bad)" for bad
  proof -
    have "file_handlers (fst (main env w0)) = [Suc (next_id w0)]"
      using that by (simp add: main_file_handlers [OF assms])
    then show ?thesis
      using that by (simp add: main_after_init [OF assms] module_init_ok [OF ok])
  qed
  from 1 2 3 4 show ?thesis
    by blast
qed

theorem port_not_range_checked_witness:
  "parse_args [Host ''0.0.0.0'', Port ''70000''] =
       Inr (defaults\<lparr>args_host := ''0.0.0.0'', args_port := 70000\<rparr>)
   \<and> py_int ''http'' = None
   \<and> ServeCall ''src.server:app'' ''localhost'' (- 1) False ''info''
       \<in> set (trace (fst (main (example_env\<lparr>argv := [Port ''-1'']\<rparr>) fresh_process)))
   \<and> main (example_env\<lparr>argv := [Port ''http'']\<rparr>) fresh_process =
     (fst (module_init (example_env\<lparr>argv := [Port ''http'']\<rparr>) fresh_process)
        \<lparr>trace := [Usage [Port ''http'']]\<rparr>, SystemExit 2)
   \<and> root_handlers (fst (main (example_env\<lparr>argv := [Port ''http'']\<rparr>) fresh_process)) = [0, 1]"
proof -
  let ?e1 = "example_env\<lparr>argv := [Port ''http'']\<rparr>"
  let ?e2 = "example_env\<lparr>argv := [Port ''-1'']\<rparr>"
  have i1: "snd (module_init ?e1 fresh_process) = None"
    and i2: "snd (module_init ?e2 fresh_process) = None"
    by (simp_all add: module_init_None_iff)
  have p1: "parse_args (argv ?e1) = Inl (Usage_error [Port ''http''])"
    by (simp add: parse_args_def string_eval)
  have p2: "parse_args (argv ?e2) = Inr (defaults\<lparr>args_port := - 1\<rparr>)"
    by (simp add: parse_args_def string_eval)
  have c2: "snd (configure_log_file ?e2 (defaults\<lparr>args_port := - 1\<rparr>)
                   (fst (module_init ?e2 fresh_process))) = None"
    by simp
  have p3: "parse_args [Host ''0.0.0.0''] = Inr (defaults\<lparr>args_host := ''0.0.0.0''\<rparr>)"
    by (simp add: parse_args_def)
  have n: "py_int ''70000'' = Some 70000"
    by (simp add: string_eval)
  note t1 = port_not_range_checked [OF i1, THEN conjunct1, rule_format, OF conjI, OF p3 n]
  note t2 = port_not_range_checked [OF i1, THEN conjunct2, THEN conjunct1, rule_format, OF p1]
  note t3 = port_not_range_checked [OF i2, THEN conjunct2, THEN conjunct2, THEN conjunct1,
      rule_format, OF conjI, OF p2 c2]
  note t4 = port_not_range_checked [OF i1, THEN conjunct2, THEN conjunct2, THEN conjunct2,
      rule_format, OF p1]
  from t1 t2 t3 t4 show ?thesis
    by (simp add: module_init_ok resolve_log_level_def getenv_DEBUG_def)
qed

text \<open>
  The claim C2 says that a failed replacement leaves the previous file handler attached
  and usable. With \<open>--log-file /nope/app.log\<close> on a file system where only the default log
  file can be opened, the run ends in an uncaught \<open>OSError\<close> with the console handler alone
  attached: the default file handler is gone from the root logger and its stream is closed.
\<close>

theorem failed_replacement_drops_previous_handler:
  "snd (main (example_env\<lparr>argv := [Log_file ''/nope/app.log''],
                           open_ok := (\<lambda>p. p = ''logs/academic-agent.log'')\<rparr>) fresh_process)
     = Uncaught (OSError ''/nope/app.log'')
   \<and> root_handlers (fst (module_init (example_env\<lparr>argv := [Log_file ''/nope/app.log''],
                           open_ok := (\<lambda>p. p = ''logs/academic-agent.log'')\<rparr>) fresh_process))
     = [0, 1]
   \<and> root_handlers (fst (main (example_env\<lparr>argv := [Log_file ''/nope/app.log''],
                           open_ok := (\<lambda>p. p = ''logs/academic-agent.log'')\<rparr>) fresh_process))
     = [0]
   \<and> map_option stream_open
        (objects (fst (main (example_env\<lparr>argv := [Log_file ''/nope/app.log''],
                           open_ok := (\<lambda>p. p = ''logs/academic-agent.log'')\<rparr>) fresh_process)) 1)
     = Some False"
proof -
  let ?e = "example_env\<lparr>argv := [Log_file ''/nope/app.log''],
                        open_ok := (\<lambda>p. p = ''logs/academic-agent.log'')\<rparr>"
  have ok: "mkdir_ok ?e log_dir" "open_ok ?e log_file"
    by simp_all
  have i: "snd (module_init ?e fresh_process) = None"
    by (simp add: module_init_None_iff)
  have p: "parse_args [Log_file ''/nope/app.log''] = Inr (defaults\<lparr>args_log_file := Some ''/nope/app.log''\<rparr>)"
    by (simp add: parse_args_def)
  show ?thesis
    by (simp add: main_after_init [OF i] p configure_init_exn [OF ok] configure_init_handlers [OF ok]
        configure_init_objects [OF ok] module_init_ok [OF ok])
qed

text \<open>
  C2, as the script does it. Let \<open>--log-file\<close> name a non-empty path \<open>f\<close> in a run whose
  module level and argument parsing succeed. If the directory of \<open>f\<close> cannot be made, the
  \<open>OSError\<close> leaves the state as the module level left it, with the default file handler
  attached. If the directory can be made and \<open>f\<close> cannot be opened, the \<open>OSError\<close> comes
  after the removal loop: the run ends uncaught with exit status 1 and nothing logged, the
  console handler is the only handler attached, and the default file handler is closed.
\<close>

theorem failed_replacement_is_not_atomic:
  assumes "snd (module_init env w0) = None"
    and "parse_args (argv env) = Inr a"
    and "args_log_file a = Some f"
    and "f \<noteq> []"
  shows "(\<not> parent_mkdir_ok env f \<longrightarrow>
            main env w0 = (fst (module_init env w0), Uncaught (OSError f))
          \<and> file_handlers (fst (main env w0)) = [Suc (next_id w0)])
       \<and> (parent_mkdir_ok env f \<and> \<not> open_ok env f \<longrightarrow>
            snd (main env w0) = Uncaught (OSError f)
          \<and> exit_code (snd (main env w0)) = Some 1
          \<and> trace (fst (main env w0)) = trace (fst (module_init env w0))
          \<and> root_handlers (fst (main env w0)) = [next_id w0]
          \<and> file_handlers (fst (main env w0)) = []
          \<and> Suc (next_id w0) \<in> set (file_handlers (fst (module_init env w0)))
          \<and> map_option stream_open (objects (fst (main env w0)) (Suc (next_id w0))) = Some False)"
proof -
  from assms(1) have ok: "mkdir_ok env log_dir" "open_ok env log_file"
    by (simp_all add: module_init_None_iff)
  have u: "\<not> parent_mkdir_ok env f \<Longrightarrow>
        configure_log_file env a (fst (module_init env w0)) = (fst (module_init env w0), Some (OSError f))"
    using assms(3,4) by (simp add: configure_log_file_def)
  show ?thesis
    using assms(3,4)
    by (auto simp: main_after_init [OF assms(1)] assms(2) u configure_init_exn [OF ok]
        configure_init_handlers [OF ok] configure_init_objects [OF ok]
        configure_init_file_handlers [OF ok] module_init_file_handlers [OF ok])
qed

theorem failed_replacement_is_not_atomic_witness:
  "main (example_env\<lparr>argv := [Log_file ''/ro/app.log''], parent_mkdir_ok := (\<lambda>p. False)\<rparr>)
        fresh_process
     = (fst (module_init (example_env\<lparr>argv := [Log_file ''/ro/app.log''],
                            parent_mkdir_ok := (\<lambda>p. False)\<rparr>) fresh_process),
        Uncaught (OSError ''/ro/app.log''))
   \<and> snd (main (example_env\<lparr>argv := [Log_file ''/ro/app.log''],
                  open_ok := (\<lambda>p. p = ''logs/academic-agent.log'')\<rparr>) fresh_process)
     = Uncaught (OSError ''/ro/app.log'')
   \<and> root_handlers (fst (main (example_env\<lparr>argv := [Log_file ''/ro/app.log''],
                  open_ok := (\<lambda>p. p = ''logs/academic-agent.log'')\<rparr>) fresh_process)) = [0]"
proof -
  let ?e1 = "example_env\<lparr>argv := [Log_file ''/ro/app.log''], parent_mkdir_ok := (\<lambda>p. False)\<rparr>"
  let ?e2 = "example_env\<lparr>argv := [Log_file ''/ro/app.log''],
                         open_ok := (\<lambda>p. p = ''logs/academic-agent.log'')\<rparr>"
  let ?a = "defaults\<lparr>args_log_file := Some ''/ro/app.log''\<rparr>"
  have i1: "snd (module_init ?e1 fresh_process) = None"
    and i2: "snd (module_init ?e2 fresh_process) = None"
    by (simp_all add: module_init_None_iff)
  have p1: "parse_args (argv ?e1) = Inr ?a" and p2: "parse_args (argv ?e2) = Inr ?a"
    by (simp_all add: parse_args_def)
  have f: "args_log_file ?a = Some ''/ro/app.log''" "''/ro/app.log'' \<noteq> []"
    by simp_all
  from failed_replacement_is_not_atomic [OF i1 p1 f]
       failed_replacement_is_not_atomic [OF i2 p2 f]
  show ?thesis
    by simp
qed

text \<open>
  The claim C3 asks for a message that identifies the signal. The two signals give the same
  trace, record for record, so the message cannot tell them apart.
\<close>

theorem shutdown_message_does_not_name_signal:
  "handle_shutdown SIGINT fresh_process = handle_shutdown SIGTERM fresh_process
   \<and> trace (fst (main (example_env\<lparr>serve_result := Signalled SIGINT\<rparr>) fresh_process)) =
     trace (fst (main (example_env\<lparr>serve_result := Signalled SIGTERM\<rparr>) fresh_process))
   \<and> last (trace (fst (main (example_env\<lparr>serve_result := Signalled SIGINT\<rparr>) fresh_process))) =
     LogCall ''__main__'' 20 ''Received shutdown signal. Starting graceful shutdown...'' [0, 1]"
proof -
  have m: "main (example_env\<lparr>serve_result := Signalled s\<rparr>) fresh_process =
        run_server (example_env\<lparr>serve_result := Signalled s\<rparr>) defaults False ''info''
          (fst (module_init (example_env\<lparr>serve_result := Signalled s\<rparr>) fresh_process))" for s
    by (subst main_ok [where a = defaults])
       (simp_all add: module_init_None_iff resolve_log_level_def getenv_DEBUG_def)
  have t: "trace (fst (main (example_env\<lparr>serve_result := Signalled s\<rparr>) fresh_process)) =
       [LogCall ''__main__'' 20 ''Starting DeerFlow API server on localhost:8000'' [0, 1],
        LogCall ''__main__'' 20 ''Log level: INFO'' [0, 1],
        LogCall ''__main__'' 20 ''Log file: /srv/app/logs/academic-agent.log'' [0, 1],
        ServeCall ''src.server:app'' ''localhost'' 8000 False ''info'',
        LogCall ''__main__'' 20 ''Received shutdown signal. Starting graceful shutdown...'' [0, 1]]"
    for s
    by (simp add: m run_server_trace fresh_startup_trace
        module_init_signal_handlers module_init_None_iff
        str_int_def digits_def logger_name_def INFO_def)
  show ?thesis
    by (simp add: t handle_shutdown_def)
qed

text \<open>
  C3. The handler registered for SIGTERM and SIGINT makes one call of \<open>logger.info\<close> and
  then exits with status 0. The text it logs is the same for both signals. In a run that
  reaches the server call, a signal arriving there ends the run with exactly that record
  after the server call and with status 0.
\<close>

theorem handle_shutdown_logs_once_and_exits_0:
  assumes "snd (module_init env w0) = None"
    and "parse_args (argv env) = Inr a"
    and "snd (configure_log_file env a (fst (module_init env w0))) = None"
    and "serve_result env = Signalled s"
  shows "handle_shutdown sig w =
           (w\<lparr>trace := trace w @ [LogCall logger_name INFO
              ''Received shutdown signal. Starting graceful shutdown...''
              (emitted_to w logger_name INFO)]\<rparr>, SystemExit 0)
       \<and> signal_handlers (fst (module_init env w0)) s = Some Handle_shutdown
       \<and> snd (main env w0) = SystemExit 0
       \<and> exit_code (snd (main env w0)) = Some 0
       \<and> trace (fst (main env w0)) =
           trace (startup a (resolve_log_level env a)
                   (fst (configure_log_file env a (fst (module_init env w0)))))
           @ [ServeCall ''src.server:app'' (args_host a) (args_port a) (args_reload a)
                (resolve_log_level env a),
              LogCall logger_name INFO ''Received shutdown signal. Starting graceful shutdown...''
                (emitted_to (startup a (resolve_log_level env a)
                   (fst (configure_log_file env a (fst (module_init env w0))))) logger_name INFO)]"
proof -
  have h: "handle_shutdown sig w =
           (w\<lparr>trace := trace w @ [LogCall logger_name INFO
              ''Received shutdown signal. Starting graceful shutdown...''
              (emitted_to w logger_name INFO)]\<rparr>, SystemExit 0)"
    by (simp add: handle_shutdown_def logger_info_def log_call_def)
  note m = main_ok [OF assms(1,2,3)]
  note sh = module_init_signal_handlers [OF assms(1), of s]
  have o: "snd (main env w0) = SystemExit 0"
    by (simp add: m run_server_outcome assms(4) sh)
  have t: "trace (fst (main env w0)) =
           trace (startup a (resolve_log_level env a)
                   (fst (configure_log_file env a (fst (module_init env w0)))))
           @ [ServeCall ''src.server:app'' (args_host a) (args_port a) (args_reload a)
                (resolve_log_level env a),
              LogCall logger_name INFO ''Received shutdown signal. Starting graceful shutdown...''
                (emitted_to (startup a (resolve_log_level env a)
                   (fst (configure_log_file env a (fst (module_init env w0))))) logger_name INFO)]"
    by (simp add: m run_server_trace assms(4) sh)
  show ?thesis
    using h o t sh by simp
qed

theorem handle_shutdown_logs_once_and_exits_0_witness:
  "snd (main (example_env\<lparr>serve_result := Signalled SIGTERM\<rparr>) fresh_process) = SystemExit 0
   \<and> trace (fst (main (example_env\<lparr>serve_result := Signalled SIGTERM\<rparr>) fresh_process)) =
       [LogCall ''__main__'' 20 ''Starting DeerFlow API server on localhost:8000'' [0, 1],
        LogCall ''__main__'' 20 ''Log level: INFO'' [0, 1],
        LogCall ''__main__'' 20 ''Log file: /srv/app/logs/academic-agent.log'' [0, 1],
        ServeCall ''src.server:app'' ''localhost'' 8000 False ''info'',
        LogCall ''__main__'' 20 ''Received shutdown signal. Starting graceful shutdown...'' [0, 1]]"
proof -
  let ?env = "example_env\<lparr>serve_result := Signalled SIGTERM\<rparr>"
  have 1: "snd (module_init ?env fresh_process) = None"
    by (simp add: module_init_None_iff)
  have 2: "parse_args (argv ?env) = Inr defaults"
    by simp
  have 3: "snd (configure_log_file ?env defaults (fst (module_init ?env fresh_process))) = None"
    by simp
  have 4: "serve_result ?env = Signalled SIGTERM"
    by simp
  have s: "trace (startup defaults ''info'' (fst (module_init ?env fresh_process))) =
       [LogCall ''__main__'' 20 ''Starting DeerFlow API server on localhost:8000'' [0, 1],
        LogCall ''__main__'' 20 ''Log level: INFO'' [0, 1],
        LogCall ''__main__'' 20 ''Log file: /srv/app/logs/academic-agent.log'' [0, 1]]"
    by (simp add: startup_trace module_init_file_handlers module_init_emitted_to module_init_ok
        logger_name_def INFO_def str_int_def digits_def)
  have e: "emitted_to (startup defaults ''info'' (fst (module_init ?env fresh_process)))
             logger_name INFO = [0, 1]"
    by (simp add: startup_emitted_to module_init_ok logger_name_def)
  from handle_shutdown_logs_once_and_exits_0 [OF 1 2 3 4] s e show ?thesis
    by (simp add: resolve_log_level_def getenv_DEBUG_def logger_name_def INFO_def)
qed

text \<open>
  The claim C4 puts \<open>set_level\<close> before the start-up lines. With \<open>--log-level warning\<close> the
  three start-up records, which are INFO records, are emitted by both handlers, and the run
  ends with the root logger and both handlers at WARNING: the lines were logged under the
  old floor, before the level was set.
\<close>

theorem startup_lines_emitted_under_old_level:
  "trace (fst (main (example_env\<lparr>argv := [Log_level ''warning'']\<rparr>) fresh_process)) =
     [LogCall ''__main__'' 20 ''Starting DeerFlow API server on localhost:8000'' [0, 1],
      LogCall ''__main__'' 20 ''Log level: WARNING'' [0, 1],
      LogCall ''__main__'' 20 ''Log file: /srv/app/logs/academic-agent.log'' [0, 1],
      ServeCall ''src.server:app'' ''localhost'' 8000 False ''warning'']
   \<and> root_level (fst (main (example_env\<lparr>argv := [Log_level ''warning'']\<rparr>) fresh_process)) = 30
   \<and> map (\<lambda>h. map_option hlevel
             (objects (fst (main (example_env\<lparr>argv := [Log_level ''warning'']\<rparr>) fresh_process)) h))
         [0, 1] = [Some 30, Some 30]"
proof -
  let ?e = "example_env\<lparr>argv := [Log_level ''warning'']\<rparr>"
  let ?a = "defaults\<lparr>args_log_level := ''warning''\<rparr>"
  have p: "parse_args (argv ?e) = Inr ?a"
    by (simp add: parse_args_def choices_def)
  have m: "main ?e fresh_process =
        run_server ?e ?a False ''warning'' (fst (module_init ?e fresh_process))"
    by (subst main_ok [OF _ p])
       (simp_all add: module_init_None_iff resolve_log_level_def getenv_DEBUG_def)
  show ?thesis
    by (simp add: m run_server_trace fresh_startup_trace startup_objects module_init_ok
        str_int_def digits_def level_defs)
qed

text \<open>
  C4, as the script does it. In a run that reaches the server call, let \<open>w\<close> be the state
  after the log-file configuration. There the root logger and every attached handler are
  at INFO. The run's trace continues from \<open>w\<close> with the bind-address line, the level line
  and, when a file handler is attached, the line with its path, each emitted as the levels
  of \<open>w\<close> allow. Only then is the level set: at the end the root logger and every attached
  handler are at the level the resolved name denotes.
\<close>

theorem startup_lines_then_set_level:
  assumes "snd (module_init env w0) = None"
    and "parse_args (argv env) = Inr a"
    and "snd (configure_log_file env a (fst (module_init env w0))) = None"
  shows "root_level (fst (configure_log_file env a (fst (module_init env w0)))) = INFO
       \<and> (\<forall>h \<in> set (root_handlers (fst (configure_log_file env a (fst (module_init env w0))))).
            map_option hlevel
              (objects (fst (configure_log_file env a (fst (module_init env w0)))) h) = Some INFO)
       \<and> (\<exists>rest. trace (fst (main env w0)) =
            trace (fst (configure_log_file env a (fst (module_init env w0))))
            @ [LogCall logger_name INFO
                 (''Starting DeerFlow API server on '' @ args_host a @ '':''
                    @ str_int (args_port a))
                 (emitted_to (fst (configure_log_file env a (fst (module_init env w0))))
                    logger_name INFO),
               LogCall logger_name INFO (''Log level: '' @ upper (resolve_log_level env a))
                 (emitted_to (fst (configure_log_file env a (fst (module_init env w0))))
                    logger_name INFO)]
            @ (case file_handlers (fst (configure_log_file env a (fst (module_init env w0)))) of
                 [] \<Rightarrow> []
               | h # hs \<Rightarrow>
                   [LogCall logger_name INFO
                      (''Log file: '' @ baseFilename_of
                         (fst (configure_log_file env a (fst (module_init env w0)))) h)
                      (emitted_to (fst (configure_log_file env a (fst (module_init env w0))))
                         logger_name INFO)])
            @ rest)
       \<and> root_level (fst (main env w0)) = logging_getattr (upper (resolve_log_level env a))
       \<and> (\<forall>h \<in> set (root_handlers (fst (main env w0))).
            map_option hlevel (objects (fst (main env w0)) h)
              = Some (logging_getattr (upper (resolve_log_level env a))))"
proof -
  let ?w = "fst (configure_log_file env a (fst (module_init env w0)))"
  let ?ll = "resolve_log_level env a"
  note m = main_ok [OF assms]
  from assms(1) have ok: "mkdir_ok env log_dir" "open_ok env log_file"
    by (simp_all add: module_init_None_iff)
  have 1: "root_level ?w = INFO"
    by (simp add: module_init_ok [OF ok])
  have 2: "\<forall>h \<in> set (root_handlers ?w). map_option hlevel (objects ?w h) = Some INFO"
    using configured_levels [OF assms(1,3)] by blast
  have 3: "trace (fst (main env w0)) =
        trace ?w
        @ [LogCall logger_name INFO
             (''Starting DeerFlow API server on '' @ args_host a @ '':'' @ str_int (args_port a))
             (emitted_to ?w logger_name INFO),
           LogCall logger_name INFO (''Log level: '' @ upper ?ll) (emitted_to ?w logger_name INFO)]
        @ (case file_handlers ?w of
             [] \<Rightarrow> []
           | h # hs \<Rightarrow> [LogCall logger_name INFO (''Log file: '' @ baseFilename_of ?w h)
                          (emitted_to ?w logger_name INFO)])
        @ ((if lower ?ll = ''debug''
            then [LogCall logger_name INFO debug_enabled_msg
                    (emitted_to (startup a ?ll ?w) logger_name INFO)]
            else [])
           @ drop (length (trace (startup a ?ll ?w))) (trace (fst (main env w0))))"
    by (simp add: m run_server_trace startup_trace)
  have 4: "root_level (fst (main env w0)) = logging_getattr (upper ?ll)"
    by (simp add: m)
  have 5: "\<forall>h \<in> set (root_handlers (fst (main env w0))).
            map_option hlevel (objects (fst (main env w0)) h) = Some (logging_getattr (upper ?ll))"
  proof
    fix h
    assume "h \<in> set (root_handlers (fst (main env w0)))"
    then have h: "h \<in> set (root_handlers ?w)"
      by (simp add: m)
    with 2 obtain ob where "objects ?w h = Some ob"
      by fastforce
    with h show "map_option hlevel (objects (fst (main env w0)) h)
                   = Some (logging_getattr (upper ?ll))"
      by (simp add: m startup_objects)
  qed
  from 3 have "\<exists>rest. trace (fst (main env w0)) =
        trace ?w
        @ [LogCall logger_name INFO
             (''Starting DeerFlow API server on '' @ args_host a @ '':'' @ str_int (args_port a))
             (emitted_to ?w logger_name INFO),
           LogCall logger_name INFO (''Log level: '' @ upper ?ll) (emitted_to ?w logger_name INFO)]
        @ (case file_handlers ?w of
             [] \<Rightarrow> []
           | h # hs \<Rightarrow> [LogCall logger_name INFO (''Log file: '' @ baseFilename_of ?w h)
                          (emitted_to ?w logger_name INFO)])
        @ rest"
    by (rule exI)
  with 1 2 4 5 show ?thesis
    by blast
qed

theorem startup_lines_then_set_level_witness:
  "take 3 (trace (fst (main (example_env\<lparr>argv := [Log_level ''error'']\<rparr>) fresh_process))) =
      [LogCall ''__main__'' 20 ''Starting DeerFlow API server on localhost:8000'' [0, 1],
       LogCall ''__main__'' 20 ''Log level: ERROR'' [0, 1],
       LogCall ''__main__'' 20 ''Log file: /srv/app/logs/academic-agent.log'' [0, 1]]
   \<and> root_level (fst (main (example_env\<lparr>argv := [Log_level ''error'']\<rparr>) fresh_process)) = 40
   \<and> map (\<lambda>h. map_option hlevel
         (objects (fst (main (example_env\<lparr>argv := [Log_level ''error'']\<rparr>) fresh_process)) h))
       [0, 1] = [Some 40, Some 40]"
proof -
  let ?e = "example_env\<lparr>argv := [Log_level ''error'']\<rparr>"
  let ?a = "defaults\<lparr>args_log_level := ''error''\<rparr>"
  have i: "snd (module_init ?e fresh_process) = None"
    by (simp add: module_init_None_iff)
  have p: "parse_args (argv ?e) = Inr ?a"
    by (simp add: parse_args_def choices_def)
  have c: "snd (configure_log_file ?e ?a (fst (module_init ?e fresh_process))) = None"
    by simp
  have r: "resolve_log_level ?e ?a = ''error''"
    by (simp add: resolve_log_level_def getenv_DEBUG_def)
  have h: "root_handlers (fst (main ?e fresh_process)) = [0, 1]"
    by (simp add: main_ok [OF i p c] module_init_ok)
  from startup_lines_then_set_level [OF i p c] show ?thesis
    by (auto simp: r h module_init_emitted_to module_init_file_handlers module_init_ok
        logger_name_def level_defs str_int_def digits_def)
qed

text \<open>
  C5. In a run that reaches the server call, the level the script puts in force is DEBUG
  whenever the variable \<open>DEBUG\<close> holds \<open>true\<close>, \<open>1\<close> or \<open>yes\<close> in any letter case, whatever
  \<open>--log-level\<close> says; otherwise it is the level that \<open>--log-level\<close> names (\<open>info\<close> when the
  option is absent). The root logger gets that level and the server call gets its name.
\<close>

theorem debug_env_overrides_cli_level:
  assumes "snd (module_init env w0) = None"
    and "parse_args (argv env) = Inr a"
    and "snd (configure_log_file env a (fst (module_init env w0))) = None"
  shows "(lower (getenv_DEBUG env) \<in> {''true'', ''1'', ''yes''} \<longrightarrow>
            resolve_log_level env a = ''debug''
          \<and> root_level (fst (main env w0)) = DEBUG
          \<and> ServeCall ''src.server:app'' (args_host a) (args_port a) (args_reload a) ''debug''
              \<in> set (trace (fst (main env w0))))
       \<and> (lower (getenv_DEBUG env) \<notin> {''true'', ''1'', ''yes''} \<longrightarrow>
            resolve_log_level env a = args_log_level a
          \<and> (args_log_level a, root_level (fst (main env w0)))
              \<in> {(''debug'', DEBUG), (''info'', INFO), (''warning'', WARNING),
                  (''error'', ERROR), (''critical'', CRITICAL)}
          \<and> ServeCall ''src.server:app'' (args_host a) (args_port a) (args_reload a)
                (args_log_level a)
              \<in> set (trace (fst (main env w0))))"
proof -
  note m = main_ok [OF assms]
  have c: "args_log_level a \<in> set choices"
    using assms(2) by (rule parse_args_log_level)
  have lv: "(args_log_level a, logging_getattr (upper (args_log_level a)))
              \<in> {(''debug'', DEBUG), (''info'', INFO), (''warning'', WARNING),
                  (''error'', ERROR), (''critical'', CRITICAL)}"
    using c by (auto simp: choices_cases)
  show ?thesis
    using lv by (simp add: m run_server_trace resolve_log_level_def)
qed

theorem debug_env_overrides_cli_level_witness:
  "root_level (fst (main (example_env\<lparr>argv := [Log_level ''info''], DEBUG_var := Some ''TRUE''\<rparr>)
      fresh_process)) = 10
   \<and> root_level (fst (main (example_env\<lparr>argv := [Log_level ''warning'']\<rparr>) fresh_process)) = 30"
proof -
  let ?e1 = "example_env\<lparr>argv := [Log_level ''info''], DEBUG_var := Some ''TRUE''\<rparr>"
  let ?e2 = "example_env\<lparr>argv := [Log_level ''warning'']\<rparr>"
  have p1: "parse_args (argv ?e1) = Inr defaults"
    by (simp add: parse_args_def choices_def defaults_def)
  have p2: "parse_args (argv ?e2) = Inr (defaults\<lparr>args_log_level := ''warning''\<rparr>)"
    by (simp add: parse_args_def choices_def)
  have i1: "snd (module_init ?e1 fresh_process) = None"
    and i2: "snd (module_init ?e2 fresh_process) = None"
    by (simp_all add: module_init_None_iff)
  have c1: "snd (configure_log_file ?e1 defaults (fst (module_init ?e1 fresh_process))) = None"
    and c2: "snd (configure_log_file ?e2 (defaults\<lparr>args_log_level := ''warning''\<rparr>)
                 (fst (module_init ?e2 fresh_process))) = None"
    by simp_all
  have d1: "lower (getenv_DEBUG ?e1) \<in> {''true'', ''1'', ''yes''}"
    by (simp add: getenv_DEBUG_def string_eval)
  have d2: "lower (getenv_DEBUG ?e2) \<notin> {''true'', ''1'', ''yes''}"
    by (simp add: getenv_DEBUG_def)
  note t1 = debug_env_overrides_cli_level [OF i1 p1 c1, THEN conjunct1, THEN mp, OF d1]
  note t2 = debug_env_overrides_cli_level [OF i2 p2 c2, THEN conjunct2, THEN mp, OF d2]
  from t1 t2 show ?thesis
    by (simp add: level_defs)
qed




text \<open>
  C7. After a successful module level exactly one rotating file handler is attached, the
  default one. After the log-file configuration, whatever \<open>--log-file\<close> is and whether or
  not the configuration raises, at most one is attached, and so it is at the end of the
  run. When \<open>--log-file\<close> names a path whose directory can be made, the default handler is
  no longer attached and its stream is closed.
\<close>

theorem at_most_one_file_handler:
  assumes "snd (module_init env w0) = None"
  shows "file_handlers (fst (module_init env w0)) = [Suc (next_id w0)]
       \<and> length (file_handlers (fst (configure_log_file env a (fst (module_init env w0))))) \<le> 1
       \<and> length (file_handlers (fst (main env w0))) \<le> 1
       \<and> (\<forall>f. args_log_file a = Some f \<and> f \<noteq> [] \<and> parent_mkdir_ok env f \<longrightarrow>
            Suc (next_id w0)
              \<notin> set (root_handlers (fst (configure_log_file env a (fst (module_init env w0)))))
          \<and> map_option stream_open
              (objects (fst (configure_log_file env a (fst (module_init env w0)))) (Suc (next_id w0)))
              = Some False)"
proof -
  from assms have ok: "mkdir_ok env log_dir" "open_ok env log_file"
    by (simp_all add: module_init_None_iff)
  have c: "length (file_handlers (fst (configure_log_file env b (fst (module_init env w0))))) \<le> 1"
    for b
    by (simp add: configure_init_file_handlers [OF ok] split: option.splits)
  have m: "length (file_handlers (fst (main env w0))) \<le> 1"
    using c by (simp add: main_file_handlers [OF assms] split: sum.splits)
  show ?thesis
    using c [of a] m
    by (simp add: module_init_file_handlers [OF ok] configure_init_handlers [OF ok]
        configure_init_objects [OF ok])
qed

theorem at_most_one_file_handler_witness:
  "file_handlers (fst (module_init (example_env\<lparr>argv := [Log_file ''/var/log/app.log'']\<rparr>)
       fresh_process)) = [1]
   \<and> file_handlers (fst (main (example_env\<lparr>argv := [Log_file ''/var/log/app.log'']\<rparr>)
       fresh_process)) = [2]
   \<and> 1 \<notin> set (root_handlers (fst (configure_log_file
         (example_env\<lparr>argv := [Log_file ''/var/log/app.log'']\<rparr>)
         (defaults\<lparr>args_log_file := Some ''/var/log/app.log''\<rparr>)
         (fst (module_init (example_env\<lparr>argv := [Log_file ''/var/log/app.log'']\<rparr>)
            fresh_process)))))
   \<and> map_option stream_open (objects (fst (configure_log_file
         (example_env\<lparr>argv := [Log_file ''/var/log/app.log'']\<rparr>)
         (defaults\<lparr>args_log_file := Some ''/var/log/app.log''\<rparr>)
         (fst (module_init (example_env\<lparr>argv := [Log_file ''/var/log/app.log'']\<rparr>)
            fresh_process)))) 1) = Some False"
proof -
  let ?e = "example_env\<lparr>argv := [Log_file ''/var/log/app.log'']\<rparr>"
  let ?a = "defaults\<lparr>args_log_file := Some ''/var/log/app.log''\<rparr>"
  have i: "snd (module_init ?e fresh_process) = None"
    by (simp add: module_init_None_iff)
  have p: "parse_args (argv ?e) = Inr ?a"
    by (simp add: parse_args_def)
  have f: "file_handlers (fst (main ?e fresh_process)) = [2]"
    by (simp add: main_file_handlers [OF i] p [simplified] configure_init_file_handlers numeral_2_eq_2)
  from at_most_one_file_handler [OF i, of ?a] f show ?thesis
    by simp
qed

text \<open>
  C8. In a run that reaches the server call, the script lowers the loggers \<open>src\<close>,
  \<open>langchain\<close> and \<open>langgraph\<close> to DEBUG exactly when the level in force is DEBUG, which is
  when the resolved level name is \<open>debug\<close>, from the option or from the environment. Every
  other named logger keeps the level it had, in both cases.
\<close>

theorem debug_lowers_three_namespaces_only:
  assumes "snd (module_init env w0) = None"
    and "parse_args (argv env) = Inr a"
    and "snd (configure_log_file env a (fst (module_init env w0))) = None"
  shows "(root_level (fst (main env w0)) = DEBUG \<longleftrightarrow> resolve_log_level env a = ''debug'')
       \<and> (root_level (fst (main env w0)) = DEBUG \<longrightarrow>
            logger_levels (fst (main env w0)) =
              (logger_levels w0)(''src'' \<mapsto> DEBUG, ''langchain'' \<mapsto> DEBUG, ''langgraph'' \<mapsto> DEBUG))
       \<and> (root_level (fst (main env w0)) \<noteq> DEBUG \<longrightarrow>
            logger_levels (fst (main env w0)) = logger_levels w0)
       \<and> (\<forall>n. n \<notin> {''src'', ''langchain'', ''langgraph''} \<longrightarrow>
            logger_levels (fst (main env w0)) n = logger_levels w0 n)"
proof -
  note m = main_ok [OF assms]
  let ?ll = "resolve_log_level env a"
  have c: "?ll \<in> set choices"
    using assms(2) by (rule resolve_log_level_choices)
  have d: "logging_getattr (upper ?ll) = DEBUG \<longleftrightarrow> lower ?ll = ''debug''"
    using c by (rule choices_debug_iff)
  have e: "lower ?ll = ''debug'' \<longleftrightarrow> ?ll = ''debug''"
    using c by (auto simp: choices_cases)
  have l: "logger_levels (fst (main env w0)) =
        (if lower ?ll = ''debug''
         then (logger_levels w0)(''src'' \<mapsto> DEBUG, ''langchain'' \<mapsto> DEBUG, ''langgraph'' \<mapsto> DEBUG)
         else logger_levels w0)"
    by (simp add: m startup_logger_levels module_init_logger_levels [OF assms(1)])
  have r: "root_level (fst (main env w0)) = logging_getattr (upper ?ll)"
    by (simp add: m)
  show ?thesis
    unfolding l r d using e by simp
qed

theorem debug_lowers_three_namespaces_only_witness:
  "map (logger_levels (fst (main (example_env\<lparr>argv := [Log_level ''debug'']\<rparr>)
          (fresh_process\<lparr>logger_levels := [''uvicorn'' \<mapsto> 30, ''src'' \<mapsto> 20]\<rparr>))))
       [''src'', ''langchain'', ''langgraph'', ''uvicorn'', ''httpx'']
     = [Some 10, Some 10, Some 10, Some 30, None]
   \<and> map (logger_levels (fst (main example_env
          (fresh_process\<lparr>logger_levels := [''uvicorn'' \<mapsto> 30, ''src'' \<mapsto> 20]\<rparr>))))
       [''src'', ''langchain'', ''langgraph'', ''uvicorn'', ''httpx'']
     = [Some 20, None, None, Some 30, None]"
proof -
  let ?e1 = "example_env\<lparr>argv := [Log_level ''debug'']\<rparr>"
  let ?w = "fresh_process\<lparr>logger_levels := [''uvicorn'' \<mapsto> 30, ''src'' \<mapsto> 20]\<rparr>"
  have p1: "parse_args (argv ?e1) = Inr (defaults\<lparr>args_log_level := ''debug''\<rparr>)"
    by (simp add: parse_args_def choices_def)
  have p2: "parse_args (argv example_env) = Inr defaults"
    by simp
  have i1: "snd (module_init ?e1 ?w) = None"
    and i2: "snd (module_init example_env ?w) = None"
    by (simp_all add: module_init_None_iff)
  have c1: "snd (configure_log_file ?e1 (defaults\<lparr>args_log_level := ''debug''\<rparr>)
                 (fst (module_init ?e1 ?w))) = None"
    and c2: "snd (configure_log_file example_env defaults (fst (module_init example_env ?w))) = None"
    by simp_all
  note t1 = debug_lowers_three_namespaces_only [OF i1 p1 c1]
  note t2 = debug_lowers_three_namespaces_only [OF i2 p2 c2]
  have r1: "resolve_log_level ?e1 (defaults\<lparr>args_log_level := ''debug''\<rparr>) = ''debug''"
    and r2: "resolve_log_level example_env defaults \<noteq> ''debug''"
    by (simp_all add: resolve_log_level_def getenv_DEBUG_def)
  from t1 r1 have "logger_levels (fst (main ?e1 ?w)) =
      (logger_levels ?w)(''src'' \<mapsto> DEBUG, ''langchain'' \<mapsto> DEBUG, ''langgraph'' \<mapsto> DEBUG)"
    by simp
  moreover from t2 r2 have "logger_levels (fst (main example_env ?w)) = logger_levels ?w"
    by simp
  ultimately show ?thesis
    by (simp add: level_defs)
qed

text \<open>
  C9. Whatever handlers the root logger holds, \<open>--log-file ""\<close> leaves no rotating file
  handler attached: the configuration raises nothing, the list of file handlers is empty
  afterwards, and every file handler that was attached is detached and closed.
\<close>

theorem disable_file_logging:
  assumes "args_log_file a = Some []"
  shows "snd (configure_log_file env a w) = None
       \<and> file_handlers (fst (configure_log_file env a w)) = []
       \<and> (\<forall>h \<in> set (file_handlers w).
            h \<notin> set (root_handlers (fst (configure_log_file env a w)))
          \<and> map_option stream_open (objects (fst (configure_log_file env a w)) h) = Some False)"
proof -
  have c: "configure_log_file env a w = (remove_file_handlers (root_handlers w) w, None)"
    using assms by (simp add: configure_log_file_def)
  have "h \<notin> set (root_handlers (remove_file_handlers (root_handlers w) w))
      \<and> map_option stream_open (objects (remove_file_handlers (root_handlers w) w) h) = Some False"
    if "h \<in> set (file_handlers w)" for h
  proof -
    from that have r: "isinstance_RotatingFileHandler w h" and m: "h \<in> set (root_handlers w)"
      by (simp_all add: file_handlers_def)
    from isinstance_object [OF r] obtain ob where "objects w h = Some ob" ..
    with r m show ?thesis
      by (simp add: remove_file_handlers_handlers remove_file_handlers_objects)
  qed
  then show ?thesis
    by (simp add: c)
qed

theorem disable_file_logging_witness:
  "file_handlers (fst (module_init example_env fresh_process)) = [1]
   \<and> file_handlers (fst (configure_log_file example_env (defaults\<lparr>args_log_file := Some []\<rparr>)
        (fst (module_init example_env fresh_process)))) = []
   \<and> map_option stream_open (objects (fst (configure_log_file example_env
        (defaults\<lparr>args_log_file := Some []\<rparr>) (fst (module_init example_env fresh_process)))) 1)
       = Some False"
proof -
  have f: "file_handlers (fst (module_init example_env fresh_process)) = [1]"
    by (simp add: file_handlers_def module_init_ok module_init_isinstance)
  have "args_log_file (defaults\<lparr>args_log_file := Some []\<rparr>) = Some []"
    by simp
  from disable_file_logging [OF this, of example_env "fst (module_init example_env fresh_process)"] f
  show ?thesis
    by simp
qed

text \<open>
  C10. After a successful module level the console handler is the object created first.
  Whatever \<open>--log-file\<close> is, and whether or not the configuration raises, that handler is
  still attached afterwards and its object is unchanged; a handler that the configuration
  detaches is a rotating file handler, and so is one that it attaches. At the end of the
  run the console handler is still attached, with its class, formatter and stream as
  created; only its level may have changed.
\<close>

theorem console_handler_kept:
  assumes "snd (module_init env w0) = None"
  shows "next_id w0 \<in> set (root_handlers (fst (configure_log_file env a (fst (module_init env w0)))))
       \<and> objects (fst (configure_log_file env a (fst (module_init env w0)))) (next_id w0) =
           Some \<lparr>cls = StreamHandler, hlevel = INFO, formatter = Some (log_format, date_format),
                 stream_open = True\<rparr>
       \<and> (\<forall>h \<in> set (root_handlers (fst (module_init env w0))).
            h \<notin> set (root_handlers (fst (configure_log_file env a (fst (module_init env w0))))) \<longrightarrow>
            isinstance_RotatingFileHandler (fst (module_init env w0)) h)
       \<and> (\<forall>h \<in> set (root_handlers (fst (configure_log_file env a (fst (module_init env w0))))).
            h \<notin> set (root_handlers (fst (module_init env w0))) \<longrightarrow>
            isinstance_RotatingFileHandler
              (fst (configure_log_file env a (fst (module_init env w0)))) h)
       \<and> next_id w0 \<in> set (root_handlers (fst (main env w0)))
       \<and> map_option (\<lambda>ob. (cls ob, formatter ob, stream_open ob))
            (objects (fst (main env w0)) (next_id w0)) =
           Some (StreamHandler, Some (log_format, date_format), True)"
proof -
  from assms have ok: "mkdir_ok env log_dir" "open_ok env log_file"
    by (simp_all add: module_init_None_iff)
  note cf = configure_init_handlers [OF ok] configure_init_objects [OF ok] module_init_ok [OF ok]
  have 1: "next_id w0 \<in> set (root_handlers (fst (configure_log_file env b (fst (module_init env w0)))))"
    for b
    by (simp add: cf split: option.splits)
  have 2: "objects (fst (configure_log_file env b (fst (module_init env w0)))) (next_id w0) =
           Some \<lparr>cls = StreamHandler, hlevel = INFO, formatter = Some (log_format, date_format),
                 stream_open = True\<rparr>" for b
    by (simp add: cf split: option.splits)
  have 3: "\<forall>h \<in> set (root_handlers (fst (module_init env w0))).
            h \<notin> set (root_handlers (fst (configure_log_file env a (fst (module_init env w0))))) \<longrightarrow>
            isinstance_RotatingFileHandler (fst (module_init env w0)) h"
    by (simp add: cf module_init_isinstance [OF ok] split: option.splits)
  have 4: "\<forall>h \<in> set (root_handlers (fst (configure_log_file env a (fst (module_init env w0))))).
            h \<notin> set (root_handlers (fst (module_init env w0))) \<longrightarrow>
            isinstance_RotatingFileHandler
              (fst (configure_log_file env a (fst (module_init env w0)))) h"
    by (simp add: cf isinstance_RotatingFileHandler_def split: option.splits)
  have 5: "next_id w0 \<in> set (root_handlers (fst (main env w0)))"
    using 1 by (simp add: main_after_init [OF assms] module_init_ok [OF ok]
        split: sum.splits option.splits parse_exit.splits)
  have 6: "map_option (\<lambda>ob. (cls ob, formatter ob, stream_open ob))
            (objects (fst (main env w0)) (next_id w0)) =
           Some (StreamHandler, Some (log_format, date_format), True)"
    using 1 2
    by (simp add: main_after_init [OF assms] module_init_ok [OF ok] startup_objects
        split: sum.splits option.splits parse_exit.splits)
  from 1 2 3 4 5 6 show ?thesis
    by blast
qed

theorem console_handler_kept_witness:
  "root_handlers (fst (module_init (example_env\<lparr>argv := [Log_file []]\<rparr>) fresh_process)) = [0, 1]
   \<and> root_handlers (fst (main (example_env\<lparr>argv := [Log_file []]\<rparr>) fresh_process)) = [0]
   \<and> isinstance_RotatingFileHandler
        (fst (module_init (example_env\<lparr>argv := [Log_file []]\<rparr>) fresh_process)) 1
   \<and> map_option (\<lambda>ob. (cls ob, formatter ob, stream_open ob))
        (objects (fst (main (example_env\<lparr>argv := [Log_file []]\<rparr>) fresh_process)) 0) =
       Some (StreamHandler,
             Some (''%(asctime)s - %(name)s - %(levelname)s - %(message)s'', ''%Y-%m-%d %H:%M:%S''),
             True)"
proof -
  let ?e = "example_env\<lparr>argv := [Log_file []]\<rparr>"
  let ?a = "defaults\<lparr>args_log_file := Some []\<rparr>"
  have i: "snd (module_init ?e fresh_process) = None"
    by (simp add: module_init_None_iff)
  have p: "parse_args [Log_file []] = Inr ?a"
    by (simp add: parse_args_def)
  have h1: "root_handlers (fst (module_init ?e fresh_process)) = [0, 1]"
    by (simp add: module_init_ok)
  have h2: "root_handlers (fst (main ?e fresh_process)) = [0]"
    by (simp add: main_after_init [OF i] p configure_init_exn configure_init_handlers)
  have h3: "root_handlers (fst (configure_log_file ?e ?a (fst (module_init ?e fresh_process)))) = [0]"
    by (simp add: configure_init_handlers)
  from console_handler_kept [OF i, of ?a] h1 h2 h3 show ?thesis
    by (simp add: log_format_def date_format_def)
qed

end
